theory Spec2Isabelle
  imports Complex_Main "HOL-Library.Char_ord" "HOL-Library.List_Lexorder"
begin

section \<open>Go values, errors and the libraries the provider calls\<close>

text \<open>
  The provider is a set of Go functions that build one HTTP request, send it through
  \<^verbatim>\<open>http.Client.Do\<close>, and translate the JSON answer into the attributes of a
  \<^verbatim>\<open>schema.ResourceData\<close>. The libraries (\<^verbatim>\<open>net/http\<close>, \<^verbatim>\<open>encoding/json\<close>,
  \<^verbatim>\<open>io/ioutil\<close>, the Terraform plugin SDK) are not part of the repository: the calls that
  reach the outside are fields of the record \<open>env\<close> below, with any result the library's
  signature allows, and every theorem holds for every such environment.
\<close>

type_synonym bytes = string

text \<open>A value of type \<^verbatim>\<open>interface{}\<close> as \<^verbatim>\<open>json.Unmarshal\<close> produces it.\<close>

datatype json =
    JNull
  | JBool bool
  | JNumber real
  | JString string
  | JArray "json list"
  | JObject "(string \<times> json) list"

text \<open>
  The comma-ok type assertion \<^verbatim>\<open>v, ok := m[key].(string)\<close>: a missing key reads as the
  nil interface, for which the assertion is not ok.
\<close>

fun string_assert :: "json option \<Rightarrow> string \<times> bool" where
  "string_assert (Some (JString s)) = (s, True)"
| "string_assert _ = ('''', False)"

text \<open>
  A Go \<^verbatim>\<open>error\<close>: either one the provider makes itself with \<^verbatim>\<open>fmt.Errorf\<close> (the
  formatted message), or one a library call returned and the provider passes on.
\<close>

datatype library =
    json_Marshal | http_NewRequest | http_Client_Do | ioutil_ReadAll | json_Unmarshal
  | ResourceData_Set

datatype error =
    Errorf string
  | LibraryError library string

subsection \<open>net/url\<close>

definition upperhex :: string where
  "upperhex = ''0123456789ABCDEF''"

text \<open>
  \<^verbatim>\<open>shouldEscape(c, encodeQueryComponent)\<close>: letters, digits and \<^verbatim>\<open>-_.~\<close> stay, every
  other byte is escaped.
\<close>

definition shouldEscape :: "char \<Rightarrow> bool" where
  "shouldEscape c =
     (let n = (of_char c :: nat) in
      \<not> ((97 \<le> n \<and> n \<le> 122) \<or> (65 \<le> n \<and> n \<le> 90) \<or> (48 \<le> n \<and> n \<le> 57)
         \<or> c = CHR ''-'' \<or> c = CHR ''_'' \<or> c = CHR ''.'' \<or> c = CHR ''~''))"

definition escape_byte :: "char \<Rightarrow> string" where
  "escape_byte c =
     (if shouldEscape c then
        (if c = CHR '' '' then ''+''
         else [CHR ''%'', upperhex ! ((of_char c :: nat) div 16), upperhex ! ((of_char c :: nat) mod 16)])
      else [c])"

definition QueryEscape :: "string \<Rightarrow> string" where
  "QueryEscape s = concat (map escape_byte s)"

text \<open>
  \<^verbatim>\<open>url.Values\<close> is a \<^verbatim>\<open>map[string][]string\<close>; here an association list with one entry
  per key. \<^verbatim>\<open>Set\<close> replaces the values of a key, \<^verbatim>\<open>Encode\<close> writes \<^verbatim>\<open>k=v\<close> pairs sorted
  by key and joined by \<^verbatim>\<open>&\<close>.
\<close>

type_synonym Values = "(string \<times> string list) list"

fun Values_Set :: "Values \<Rightarrow> string \<Rightarrow> string \<Rightarrow> Values" where
  "Values_Set [] k v = [(k, [v])]"
| "Values_Set ((k', vs) # rest) k v =
     (if k' = k then (k, [v]) # rest else (k', vs) # Values_Set rest k v)"

fun join_amp :: "string list \<Rightarrow> string" where
  "join_amp [] = []"
| "join_amp [p] = p"
| "join_amp (p # ps) = p @ ''&'' @ join_amp ps"

definition Encode :: "Values \<Rightarrow> string" where
  "Encode v =
     join_amp (concat (map (\<lambda>(k, vs). map (\<lambda>x. QueryEscape k @ ''='' @ QueryEscape x) vs)
                           (sort_key fst v)))"

subsection \<open>net/http\<close>

record http_request =
  Method :: string
  URL :: string
  Header :: "(string \<times> string) list"
  RequestBody :: "bytes option"

text \<open>
  A response as the provider reads it: the status code, the status line
  (\<^verbatim>\<open>resp.Status\<close>, for instance \<^verbatim>\<open>404 Not Found\<close>) and what
  \<^verbatim>\<open>ioutil.ReadAll(resp.Body)\<close> returns, a read error or the bytes.
\<close>

record http_response =
  StatusCode :: int
  Status :: string
  Body :: "string + bytes"

fun Header_Set :: "(string \<times> string) list \<Rightarrow> string \<Rightarrow> string \<Rightarrow> (string \<times> string) list" where
  "Header_Set [] k v = [(k, v)]"
| "Header_Set ((k', v') # rest) k v =
     (if k' = k then (k, v) # rest else (k', v') # Header_Set rest k v)"

subsection \<open>The decoded shapes\<close>

text \<open>
  The anonymous struct \<^verbatim>\<open>struct { Id, Name, Description string }\<close> of the data sources.
\<close>

record Item =
  item_Id :: string
  item_Name :: string
  item_Description :: string

subsection \<open>The environment\<close>

text \<open>
  What lies outside the repository, for a server with states of type \<open>'w\<close>:
  \<^item> \<open>Marshal\<close>: \<^verbatim>\<open>json.Marshal\<close> of a payload map whose values are strings;
  \<^item> \<open>NewRequest_error\<close>: the error of \<^verbatim>\<open>http.NewRequest(method, url, body)\<close>, if any
    (the URL does not parse);
  \<^item> \<open>Client_Do\<close>: \<^verbatim>\<open>client.Client.Do(req)\<close>, a transport error or a response, and the
    server's next state;
  \<^item> \<open>Unmarshal_map\<close>: \<^verbatim>\<open>json.Unmarshal\<close> into a \<^verbatim>\<open>map[string]interface{}\<close>;
  \<^item> \<open>Unmarshal_apps\<close>: \<^verbatim>\<open>json.Unmarshal\<close> into
    \<^verbatim>\<open>struct { Items []map[string]interface{} }\<close>, giving the field \<^verbatim>\<open>Items\<close>;
  \<^item> \<open>Unmarshal_items\<close>: \<^verbatim>\<open>json.Unmarshal\<close> into
    \<^verbatim>\<open>struct { Items []struct { Id, Name, Description string } }\<close>, giving \<^verbatim>\<open>Items\<close>;
  \<^item> \<open>Unmarshal_token\<close>: \<^verbatim>\<open>json.Unmarshal\<close> into \<^verbatim>\<open>struct { Token string }\<close>, giving
    \<^verbatim>\<open>Token\<close>.
  A library error is its message (\<open>Inl\<close>).
\<close>

record 'w env =
  Marshal :: "(string \<rightharpoonup> string) \<Rightarrow> string + bytes"
  NewRequest_error :: "string \<Rightarrow> string \<Rightarrow> string option"
  Client_Do :: "http_request \<Rightarrow> 'w \<Rightarrow> (string + http_response) \<times> 'w"
  Unmarshal_map :: "bytes \<Rightarrow> string + (string \<rightharpoonup> json)"
  Unmarshal_apps :: "bytes \<Rightarrow> string + (string \<rightharpoonup> json) list"
  Unmarshal_items :: "bytes \<Rightarrow> string + Item list"
  Unmarshal_token :: "bytes \<Rightarrow> string + string"

definition NewRequest :: "'w env \<Rightarrow> string \<Rightarrow> string \<Rightarrow> bytes option \<Rightarrow> error + http_request" where
  "NewRequest env method url body =
     (case NewRequest_error env method url of
        Some msg \<Rightarrow> Inl (LibraryError http_NewRequest msg)
      | None \<Rightarrow> Inr \<lparr>Method = method, URL = url, Header = [], RequestBody = body\<rparr>)"

definition req_Header_Set :: "http_request \<Rightarrow> string \<Rightarrow> string \<Rightarrow> http_request" where
  "req_Header_Set req k v = req\<lparr>Header := Header_Set (Header req) k v\<rparr>"

section \<open>The Terraform plugin SDK: schemas and resource data\<close>

datatype ValueType = TypeString | TypeList

text \<open>
  The error list of a \<^verbatim>\<open>SchemaValidateFunc\<close>: the attribute, the allowed values and the
  value that was refused.
\<close>

datatype validation_error = NotOneOf string "string list" string

text \<open>
  \<^verbatim>\<open>schema.Schema\<close>, with the fields the provider sets; a field a literal leaves out has
  Go's zero value (\<open>schema0\<close>). \<open>DefaultFunc\<close> holds the arguments of
  \<^verbatim>\<open>schema.EnvDefaultFunc\<close>; \<open>Elem\<close> the attribute names of the element resource of a
  list. The \<^verbatim>\<open>Description\<close> texts are left out.
\<close>

record Schema =
  Type :: ValueType
  Required :: bool
  Optional :: bool
  Computed :: bool
  ForceNew :: bool
  Sensitive :: bool
  Default :: "string option"
  DefaultFunc :: "(string \<times> string option) option"
  ValidateFunc :: "(string \<Rightarrow> string \<Rightarrow> validation_error list) option"
  Elem :: "(string \<times> ValueType) list"

definition schema0 :: Schema where
  "schema0 = \<lparr>Type = TypeString, Required = False, Optional = False, Computed = False,
     ForceNew = False, Sensitive = False, Default = None, DefaultFunc = None,
     ValidateFunc = None, Elem = []\<rparr>"

text \<open>
  \<^verbatim>\<open>validation.StringInSlice(valid, ignoreCase)\<close> of the SDK: no error when the value is
  one of \<open>valid\<close> (or equals one under case folding, when \<open>ignoreCase\<close>), one error
  otherwise. The folding here is that of ASCII letters.
\<close>

definition to_lower :: "char \<Rightarrow> char" where
  "to_lower c =
     (let n = (of_char c :: nat) in if 65 \<le> n \<and> n \<le> 90 then char_of (n + 32) else c)"

definition EqualFold :: "string \<Rightarrow> string \<Rightarrow> bool" where
  "EqualFold s t = (map to_lower s = map to_lower t)"

definition StringInSlice :: "string list \<Rightarrow> bool \<Rightarrow> string \<Rightarrow> string \<Rightarrow> validation_error list" where
  "StringInSlice valid ignoreCase v k =
     (if list_ex (\<lambda>str. v = str \<or> (ignoreCase \<and> EqualFold v str)) valid then []
      else [NotOneOf k valid v])"

text \<open>
  \<^verbatim>\<open>schema.ResourceData\<close>: the id, the string attributes and the list attributes that
  are set. A list attribute holds a \<^verbatim>\<open>[]interface{}\<close> whose elements are nil or a
  \<^verbatim>\<open>map[string]interface{}\<close> of strings.
  \<^item> \<^verbatim>\<open>d.Get(k).(string)\<close> is the value, or the zero value \<^verbatim>\<open>""\<close> of an attribute
    that is not set;
  \<^item> \<^verbatim>\<open>d.GetOk(k)\<close> is the value and whether it differs from the zero value;
  \<^item> \<^verbatim>\<open>d.Set(k, v)\<close> writes an attribute of the resource's schema and returns an error
    for a key the schema lacks or a value of the wrong type.
\<close>

type_synonym group = "(string \<times> string) list"

record ResourceData =
  rd_id :: string
  rd_attrs :: "string \<rightharpoonup> string"
  rd_lists :: "string \<rightharpoonup> group option list"

definition d_Id :: "ResourceData \<Rightarrow> string" where
  "d_Id d = rd_id d"

definition d_SetId :: "ResourceData \<Rightarrow> string \<Rightarrow> ResourceData" where
  "d_SetId d v = d\<lparr>rd_id := v\<rparr>"

definition d_Get :: "ResourceData \<Rightarrow> string \<Rightarrow> string" where
  "d_Get d k = (case rd_attrs d k of Some v \<Rightarrow> v | None \<Rightarrow> '''')"

definition d_GetOk :: "ResourceData \<Rightarrow> string \<Rightarrow> string \<times> bool" where
  "d_GetOk d k = (let v = d_Get d k in (v, v \<noteq> ''''))"

definition d_Set :: "(string \<times> Schema) list \<Rightarrow> ResourceData \<Rightarrow> string \<Rightarrow> string
    \<Rightarrow> error option \<times> ResourceData" where
  "d_Set sch d k v =
     (case map_of sch k of
        None \<Rightarrow> (Some (LibraryError ResourceData_Set (''Invalid address to set: '' @ k)), d)
      | Some s \<Rightarrow>
          (if Type s = TypeString then (None, d\<lparr>rd_attrs := (rd_attrs d)(k \<mapsto> v)\<rparr>)
           else (Some (LibraryError ResourceData_Set (k @ '': wrong type'')), d)))"

definition d_Set_list :: "(string \<times> Schema) list \<Rightarrow> ResourceData \<Rightarrow> string \<Rightarrow> group option list
    \<Rightarrow> error option \<times> ResourceData" where
  "d_Set_list sch d k v =
     (case map_of sch k of
        None \<Rightarrow> (Some (LibraryError ResourceData_Set (''Invalid address to set: '' @ k)), d)
      | Some s \<Rightarrow>
          (if Type s = TypeList then (None, d\<lparr>rd_lists := (rd_lists d)(k \<mapsto> v)\<rparr>)
           else (Some (LibraryError ResourceData_Set (k @ '': wrong type'')), d)))"

text \<open>
  What \<^verbatim>\<open>d.Get\<close> reads during Create for a configuration \<open>cfg\<close>: the configured value,
  or the schema's \<open>Default\<close> for an attribute the configuration omits.
\<close>

definition from_config :: "(string \<times> Schema) list \<Rightarrow> (string \<rightharpoonup> string) \<Rightarrow> ResourceData" where
  "from_config sch cfg =
     \<lparr>rd_id = '''',
      rd_attrs = (\<lambda>k. case cfg k of
                        Some v \<Rightarrow> Some v
                      | None \<Rightarrow> (case map_of sch k of Some s \<Rightarrow> Default s | None \<Rightarrow> None)),
      rd_lists = Map.empty\<rparr>"

text \<open>\<^verbatim>\<open>AppScanClient\<close>; its \<^verbatim>\<open>Client\<close> is the environment's \<open>Client_Do\<close>.\<close>

record AppScanClient =
  ApiEndpoint :: string
  ApiToken :: string

section \<open>Resource: the application\<close>

text \<open>
  The names of the Go functions a \<^verbatim>\<open>schema.Resource\<close> or the provider refers to.
\<close>

datatype handler =
    Fn_resourceAppScanApplicationCreate
  | Fn_resourceAppScanApplicationRead
  | Fn_resourceAppScanApplicationUpdate
  | Fn_resourceAppScanApplicationDelete
  | Fn_dataSourceAssetGroupsRead
  | Fn_dataSourceAssetGroupRead
  | Fn_dataSourceBusinessUnitRead
  | Fn_providerConfigure

record Resource =
  Create :: "handler option"
  Read :: "handler option"
  Update :: "handler option"
  Delete :: "handler option"
  SchemaMap :: "(string \<times> Schema) list"

definition business_impacts :: "string list" where
  "business_impacts = [''Unspecified'', ''Low'', ''Medium'', ''High'', ''Critical'']"

definition resourceAppScanApplication :: Resource where
  "resourceAppScanApplication =
     \<lparr>Create = Some Fn_resourceAppScanApplicationCreate,
      Read = Some Fn_resourceAppScanApplicationRead,
      Update = Some Fn_resourceAppScanApplicationUpdate,
      Delete = Some Fn_resourceAppScanApplicationDelete,
      SchemaMap =
        [(''name'', schema0\<lparr>Type := TypeString, Required := True\<rparr>),
         (''description'', schema0\<lparr>Type := TypeString, Optional := True\<rparr>),
         (''asset_group_id'', schema0\<lparr>Type := TypeString, Required := True, ForceNew := True\<rparr>),
         (''business_unit_id'', schema0\<lparr>Type := TypeString, Optional := True\<rparr>),
         (''business_impact'',
            schema0\<lparr>Type := TypeString, Optional := True, Default := Some ''Unspecified'',
              ValidateFunc := Some (StringInSlice business_impacts False)\<rparr>),
         (''id'', schema0\<lparr>Type := TypeString, Computed := True\<rparr>)]\<rparr>"

subsection \<open>Read\<close>

definition applicationReadRequest :: "'w env \<Rightarrow> ResourceData \<Rightarrow> AppScanClient \<Rightarrow> error + http_request" where
  "applicationReadRequest env d client =
     (let id' = d_Id d;
          query = Values_Set [] ''$filter'' (''Id eq '' @ id');
          urlStr = ApiEndpoint client @ ''/api/v4/Apps?'' @ Encode query
      in case NewRequest env ''GET'' urlStr None of
           Inl err \<Rightarrow> Inl err
         | Inr req \<Rightarrow> Inr (req_Header_Set req ''Authorization'' (''Bearer '' @ ApiToken client)))"

text \<open>
  \<^verbatim>\<open>if v, ok := app[key].(string); ok { d.Set(attr, v) }\<close>: the error of \<^verbatim>\<open>d.Set\<close> is
  dropped.
\<close>

definition set_if_string :: "ResourceData \<Rightarrow> (string \<rightharpoonup> json) \<Rightarrow> string \<Rightarrow> string \<Rightarrow> ResourceData" where
  "set_if_string d app key attr =
     (case string_assert (app key) of
        (v, ok) \<Rightarrow> if ok then snd (d_Set (SchemaMap resourceAppScanApplication) d attr v) else d)"

definition applicationReadFields :: "ResourceData \<Rightarrow> (string \<rightharpoonup> json) \<Rightarrow> ResourceData" where
  "applicationReadFields d app =
     (let d1 = set_if_string d app ''Name'' ''name'';
          d2 = set_if_string d1 app ''Description'' ''description'';
          d3 = set_if_string d2 app ''AssetGroupId'' ''asset_group_id'';
          d4 = set_if_string d3 app ''BusinessUnitId'' ''business_unit_id''
      in set_if_string d4 app ''BusinessImpact'' ''business_impact'')"

definition resourceAppScanApplicationRead ::
    "'w env \<Rightarrow> ResourceData \<Rightarrow> AppScanClient \<Rightarrow> 'w \<Rightarrow> (error option \<times> ResourceData) \<times> 'w" where
  "resourceAppScanApplicationRead env d client w =
     (case applicationReadRequest env d client of
        Inl err \<Rightarrow> ((Some err, d), w)
      | Inr req \<Rightarrow>
          (case Client_Do env req w of
             (Inl msg, w') \<Rightarrow> ((Some (LibraryError http_Client_Do msg), d), w')
           | (Inr resp, w') \<Rightarrow>
               if StatusCode resp = 404 then ((None, d_SetId d ''''), w')
               else if StatusCode resp \<noteq> 200 then
                 ((Some (Errorf (''failed to read application, status: '' @ Status resp)), d), w')
               else
                 (case Body resp of
                    Inl msg \<Rightarrow> ((Some (LibraryError ioutil_ReadAll msg), d), w')
                  | Inr respBody \<Rightarrow>
                      (case Unmarshal_apps env respBody of
                         Inl msg \<Rightarrow> ((Some (LibraryError json_Unmarshal msg), d), w')
                       | Inr items \<Rightarrow>
                           if length items = 0 then ((None, d_SetId d ''''), w')
                           else ((None, applicationReadFields d (items ! 0)), w')))))"

subsection \<open>Create\<close>

definition applicationCreatePayload :: "ResourceData \<Rightarrow> (string \<rightharpoonup> string)" where
  "applicationCreatePayload d =
     (let assetGroupID = d_Get d ''asset_group_id'';
          payload = [''Name'' \<mapsto> d_Get d ''name'',
                     ''Description'' \<mapsto> d_Get d ''description'',
                     ''AssetGroupId'' \<mapsto> assetGroupID];
          payload = (case d_GetOk d ''business_unit_id'' of
                       (bu, ok) \<Rightarrow> if ok then payload(''BusinessUnitId'' \<mapsto> bu) else payload)
      in payload(''BusinessImpact'' \<mapsto> d_Get d ''business_impact''))"

definition applicationCreateRequest :: "'w env \<Rightarrow> ResourceData \<Rightarrow> AppScanClient \<Rightarrow> error + http_request" where
  "applicationCreateRequest env d client =
     (case Marshal env (applicationCreatePayload d) of
        Inl msg \<Rightarrow> Inl (LibraryError json_Marshal msg)
      | Inr body \<Rightarrow>
          (case NewRequest env ''POST'' (ApiEndpoint client @ ''/api/v4/Apps'') (Some body) of
             Inl err \<Rightarrow> Inl err
           | Inr req \<Rightarrow>
               Inr (req_Header_Set
                      (req_Header_Set req ''Authorization'' (''Bearer '' @ ApiToken client))
                      ''Content-Type'' ''application/json'')))"

definition resourceAppScanApplicationCreate ::
    "'w env \<Rightarrow> ResourceData \<Rightarrow> AppScanClient \<Rightarrow> 'w \<Rightarrow> (error option \<times> ResourceData) \<times> 'w" where
  "resourceAppScanApplicationCreate env d client w =
     (case applicationCreateRequest env d client of
        Inl err \<Rightarrow> ((Some err, d), w)
      | Inr req \<Rightarrow>
          (case Client_Do env req w of
             (Inl msg, w') \<Rightarrow> ((Some (LibraryError http_Client_Do msg), d), w')
           | (Inr resp, w') \<Rightarrow>
               if StatusCode resp \<noteq> 201 \<and> StatusCode resp \<noteq> 200 then
                 ((Some (Errorf (''failed to create application, status: '' @ Status resp)), d), w')
               else
                 (case Body resp of
                    Inl msg \<Rightarrow> ((Some (LibraryError ioutil_ReadAll msg), d), w')
                  | Inr respBody \<Rightarrow>
                      (case Unmarshal_map env respBody of
                         Inl msg \<Rightarrow> ((Some (LibraryError json_Unmarshal msg), d), w')
                       | Inr result \<Rightarrow>
                           (case string_assert (result ''Id'') of
                              (id', ok) \<Rightarrow>
                                if \<not> ok \<or> id' = '''' then
                                  ((Some (Errorf ''failed to retrieve application ID from API response''), d), w')
                                else resourceAppScanApplicationRead env (d_SetId d id') client w')))))"

subsection \<open>Update\<close>

definition applicationUpdatePayload :: "ResourceData \<Rightarrow> (string \<rightharpoonup> string)" where
  "applicationUpdatePayload d =
     (let payload = [''Name'' \<mapsto> d_Get d ''name'',
                     ''Description'' \<mapsto> d_Get d ''description''];
          payload = (case d_GetOk d ''business_unit_id'' of
                       (bu, ok) \<Rightarrow> if ok then payload(''BusinessUnitId'' \<mapsto> bu) else payload)
      in payload(''BusinessImpact'' \<mapsto> d_Get d ''business_impact''))"

definition applicationUpdateRequest :: "'w env \<Rightarrow> ResourceData \<Rightarrow> AppScanClient \<Rightarrow> error + http_request" where
  "applicationUpdateRequest env d client =
     (let id' = d_Id d in
      case Marshal env (applicationUpdatePayload d) of
        Inl msg \<Rightarrow> Inl (LibraryError json_Marshal msg)
      | Inr body \<Rightarrow>
          (case NewRequest env ''PUT'' (ApiEndpoint client @ ''/api/v4/Apps/'' @ id') (Some body) of
             Inl err \<Rightarrow> Inl err
           | Inr req \<Rightarrow>
               Inr (req_Header_Set
                      (req_Header_Set req ''Authorization'' (''Bearer '' @ ApiToken client))
                      ''Content-Type'' ''application/json'')))"

definition resourceAppScanApplicationUpdate ::
    "'w env \<Rightarrow> ResourceData \<Rightarrow> AppScanClient \<Rightarrow> 'w \<Rightarrow> (error option \<times> ResourceData) \<times> 'w" where
  "resourceAppScanApplicationUpdate env d client w =
     (case applicationUpdateRequest env d client of
        Inl err \<Rightarrow> ((Some err, d), w)
      | Inr req \<Rightarrow>
          (case Client_Do env req w of
             (Inl msg, w') \<Rightarrow> ((Some (LibraryError http_Client_Do msg), d), w')
           | (Inr resp, w') \<Rightarrow>
               if StatusCode resp \<noteq> 200 then
                 ((Some (Errorf (''failed to update application, status: '' @ Status resp)), d), w')
               else resourceAppScanApplicationRead env d client w'))"

subsection \<open>Delete\<close>

definition applicationDeleteRequest :: "'w env \<Rightarrow> ResourceData \<Rightarrow> AppScanClient \<Rightarrow> error + http_request" where
  "applicationDeleteRequest env d client =
     (let id' = d_Id d in
      case NewRequest env ''DELETE'' (ApiEndpoint client @ ''/api/v4/Apps/'' @ id') None of
        Inl err \<Rightarrow> Inl err
      | Inr req \<Rightarrow> Inr (req_Header_Set req ''Authorization'' (''Bearer '' @ ApiToken client)))"

definition resourceAppScanApplicationDelete ::
    "'w env \<Rightarrow> ResourceData \<Rightarrow> AppScanClient \<Rightarrow> 'w \<Rightarrow> (error option \<times> ResourceData) \<times> 'w" where
  "resourceAppScanApplicationDelete env d client w =
     (case applicationDeleteRequest env d client of
        Inl err \<Rightarrow> ((Some err, d), w)
      | Inr req \<Rightarrow>
          (case Client_Do env req w of
             (Inl msg, w') \<Rightarrow> ((Some (LibraryError http_Client_Do msg), d), w')
           | (Inr resp, w') \<Rightarrow>
               if StatusCode resp \<noteq> 204 \<and> StatusCode resp \<noteq> 200 then
                 ((Some (Errorf (''failed to delete application, status: '' @ Status resp)), d), w')
               else ((None, d_SetId d ''''), w')))"

subsection \<open>The copy in main.go\<close>

text \<open>
  \<^verbatim>\<open>main.go\<close>, the one file of package main, defines the provider a second time and
  takes nothing from the provider package. Its \<^verbatim>\<open>providerConfigure\<close>, its \<^verbatim>\<open>Provider\<close>
  and its two asset-group data sources read as the ones here; it has no business-unit
  data source. Its application resource has neither \<open>business_unit_id\<close> nor
  \<open>business_impact\<close>: the schema lacks both, and the payloads of Create and Update hold
  neither. Its \<^verbatim>\<open>resourceAppScanApplicationRead\<close> builds the request and treats the
  status and the body as the Read above does, line by line, and then sets the name and
  the description only.
\<close>

definition resourceAppScanApplication_main :: Resource where
  "resourceAppScanApplication_main =
     \<lparr>Create = Some Fn_resourceAppScanApplicationCreate,
      Read = Some Fn_resourceAppScanApplicationRead,
      Update = Some Fn_resourceAppScanApplicationUpdate,
      Delete = Some Fn_resourceAppScanApplicationDelete,
      SchemaMap =
        [(''name'', schema0\<lparr>Type := TypeString, Required := True\<rparr>),
         (''description'', schema0\<lparr>Type := TypeString, Optional := True\<rparr>),
         (''asset_group_id'', schema0\<lparr>Type := TypeString, Required := True, ForceNew := True\<rparr>),
         (''id'', schema0\<lparr>Type := TypeString, Computed := True\<rparr>)]\<rparr>"

definition applicationReadFields_main :: "ResourceData \<Rightarrow> (string \<rightharpoonup> json) \<Rightarrow> ResourceData" where
  "applicationReadFields_main d app =
     (let d1 = (case string_assert (app ''Name'') of
                  (v, ok) \<Rightarrow>
                    if ok then snd (d_Set (SchemaMap resourceAppScanApplication_main) d ''name'' v)
                    else d)
      in case string_assert (app ''Description'') of
           (v, ok) \<Rightarrow>
             if ok then snd (d_Set (SchemaMap resourceAppScanApplication_main) d1 ''description'' v)
             else d1)"

definition resourceAppScanApplicationRead_main ::
    "'w env \<Rightarrow> ResourceData \<Rightarrow> AppScanClient \<Rightarrow> 'w \<Rightarrow> (error option \<times> ResourceData) \<times> 'w" where
  "resourceAppScanApplicationRead_main env d client w =
     (case applicationReadRequest env d client of
        Inl err \<Rightarrow> ((Some err, d), w)
      | Inr req \<Rightarrow>
          (case Client_Do env req w of
             (Inl msg, w') \<Rightarrow> ((Some (LibraryError http_Client_Do msg), d), w')
           | (Inr resp, w') \<Rightarrow>
               if StatusCode resp = 404 then ((None, d_SetId d ''''), w')
               else if StatusCode resp \<noteq> 200 then
                 ((Some (Errorf (''failed to read application, status: '' @ Status resp)), d), w')
               else
                 (case Body resp of
                    Inl msg \<Rightarrow> ((Some (LibraryError ioutil_ReadAll msg), d), w')
                  | Inr respBody \<Rightarrow>
                      (case Unmarshal_apps env respBody of
                         Inl msg \<Rightarrow> ((Some (LibraryError json_Unmarshal msg), d), w')
                       | Inr items \<Rightarrow>
                           if length items = 0 then ((None, d_SetId d ''''), w')
                           else ((None, applicationReadFields_main d (items ! 0)), w')))))"

section \<open>Data sources\<close>

subsection \<open>The list of asset groups\<close>

definition dataSourceAssetGroups :: Resource where
  "dataSourceAssetGroups =
     \<lparr>Create = None, Read = Some Fn_dataSourceAssetGroupsRead, Update = None, Delete = None,
      SchemaMap =
        [(''name'', schema0\<lparr>Type := TypeString, Optional := True\<rparr>),
         (''asset_groups'',
            schema0\<lparr>Type := TypeList, Computed := True,
              Elem := [(''id'', TypeString), (''name'', TypeString),
                       (''description'', TypeString)]\<rparr>)]\<rparr>"

text \<open>The quote character of the OData filter \<^verbatim>\<open>Name eq '%s'\<close>.\<close>

definition quote :: string where
  "quote = [CHR 0x27]"

definition assetGroupsQuery :: "ResourceData \<Rightarrow> Values" where
  "assetGroupsQuery d =
     (let filterQuery = (case d_GetOk d ''name'' of
                           (name, ok) \<Rightarrow> if ok then ''Name eq '' @ quote @ name @ quote else '''');
          query = []
      in if filterQuery \<noteq> '''' then Values_Set query ''$filter'' filterQuery else query)"

definition assetGroupsRequest :: "'w env \<Rightarrow> ResourceData \<Rightarrow> AppScanClient \<Rightarrow> error + http_request" where
  "assetGroupsRequest env d client =
     (let urlStr = ApiEndpoint client @ ''/api/v4/AssetGroups?'' @ Encode (assetGroupsQuery d)
      in case NewRequest env ''GET'' urlStr None of
           Inl err \<Rightarrow> Inl err
         | Inr req \<Rightarrow> Inr (req_Header_Set req ''Authorization'' (''Bearer '' @ ApiToken client)))"

definition group_of :: "Item \<Rightarrow> group" where
  "group_of ag = [(''id'', item_Id ag), (''name'', item_Name ag),
                  (''description'', item_Description ag)]"

text \<open>
  The loop \<^verbatim>\<open>for i, ag := range result.Items { groups[i] = group }\<close> over a slice made
  with \<^verbatim>\<open>make([]interface{}, len(result.Items))\<close>, whose elements start as nil.
\<close>

fun fill_groups :: "nat \<Rightarrow> Item list \<Rightarrow> group option list \<Rightarrow> group option list" where
  "fill_groups i [] groups = groups"
| "fill_groups i (ag # rest) groups = fill_groups (Suc i) rest (groups[i := Some (group_of ag)])"

definition make_groups :: "Item list \<Rightarrow> group option list" where
  "make_groups items = fill_groups 0 items (replicate (length items) None)"

definition dataSourceAssetGroupsRead ::
    "'w env \<Rightarrow> ResourceData \<Rightarrow> AppScanClient \<Rightarrow> 'w \<Rightarrow> (error option \<times> ResourceData) \<times> 'w" where
  "dataSourceAssetGroupsRead env d client w =
     (case assetGroupsRequest env d client of
        Inl err \<Rightarrow> ((Some err, d), w)
      | Inr req \<Rightarrow>
          (case Client_Do env req w of
             (Inl msg, w') \<Rightarrow> ((Some (LibraryError http_Client_Do msg), d), w')
           | (Inr resp, w') \<Rightarrow>
               if StatusCode resp \<noteq> 200 then
                 ((Some (Errorf (''failed to read asset groups, status: '' @ Status resp)), d), w')
               else
                 (case Body resp of
                    Inl msg \<Rightarrow> ((Some (LibraryError ioutil_ReadAll msg), d), w')
                  | Inr respBody \<Rightarrow>
                      (case Unmarshal_items env respBody of
                         Inl msg \<Rightarrow> ((Some (LibraryError json_Unmarshal msg), d), w')
                       | Inr items \<Rightarrow>
                           (case d_Set_list (SchemaMap dataSourceAssetGroups) d ''asset_groups''
                                   (make_groups items) of
                              (Some err, d1) \<Rightarrow> ((Some err, d1), w')
                            | (None, d1) \<Rightarrow> ((None, d_SetId d1 ''asset_groups''), w'))))))"

subsection \<open>One asset group, by name\<close>

definition dataSourceAssetGroup :: Resource where
  "dataSourceAssetGroup =
     \<lparr>Create = None, Read = Some Fn_dataSourceAssetGroupRead, Update = None, Delete = None,
      SchemaMap =
        [(''name'', schema0\<lparr>Type := TypeString, Required := True\<rparr>),
         (''id'', schema0\<lparr>Type := TypeString, Computed := True\<rparr>),
         (''description'', schema0\<lparr>Type := TypeString, Computed := True\<rparr>)]\<rparr>"

definition assetGroupRequest :: "'w env \<Rightarrow> ResourceData \<Rightarrow> AppScanClient \<Rightarrow> error + http_request" where
  "assetGroupRequest env d client =
     (let assetName = d_Get d ''name'';
          filterQuery = ''Name eq '' @ quote @ assetName @ quote;
          query = Values_Set [] ''$filter'' filterQuery;
          urlStr = ApiEndpoint client @ ''/api/v4/AssetGroups?'' @ Encode query
      in case NewRequest env ''GET'' urlStr None of
           Inl err \<Rightarrow> Inl err
         | Inr req \<Rightarrow> Inr (req_Header_Set req ''Authorization'' (''Bearer '' @ ApiToken client)))"

definition dataSourceAssetGroupRead ::
    "'w env \<Rightarrow> ResourceData \<Rightarrow> AppScanClient \<Rightarrow> 'w \<Rightarrow> (error option \<times> ResourceData) \<times> 'w" where
  "dataSourceAssetGroupRead env d client w =
     (let assetName = d_Get d ''name'' in
      case assetGroupRequest env d client of
        Inl err \<Rightarrow> ((Some err, d), w)
      | Inr req \<Rightarrow>
          (case Client_Do env req w of
             (Inl msg, w') \<Rightarrow> ((Some (LibraryError http_Client_Do msg), d), w')
           | (Inr resp, w') \<Rightarrow>
               if StatusCode resp \<noteq> 200 then
                 ((Some (Errorf (''failed to read asset group, status: '' @ Status resp)), d), w')
               else
                 (case Body resp of
                    Inl msg \<Rightarrow> ((Some (LibraryError ioutil_ReadAll msg), d), w')
                  | Inr body \<Rightarrow>
                      (case Unmarshal_items env body of
                         Inl msg \<Rightarrow> ((Some (LibraryError json_Unmarshal msg), d), w')
                       | Inr items \<Rightarrow>
                           if length items = 0 then
                             ((Some (Errorf (''no asset group found with name: '' @ assetName)), d), w')
                           else if length items > 1 then
                             ((Some (Errorf (''multiple asset groups found with name: '' @ assetName)), d), w')
                           else
                             (let asset = items ! 0;
                                  d1 = d_SetId d (item_Id asset)
                              in case d_Set (SchemaMap dataSourceAssetGroup) d1 ''name'' (item_Name asset) of
                                   (Some err, d2) \<Rightarrow> ((Some err, d2), w')
                                 | (None, d2) \<Rightarrow>
                                     (case d_Set (SchemaMap dataSourceAssetGroup) d2 ''description''
                                             (item_Description asset) of
                                        (Some err, d3) \<Rightarrow> ((Some err, d3), w')
                                      | (None, d3) \<Rightarrow> ((None, d3), w')))))))"

subsection \<open>One business unit, by name\<close>

definition dataSourceBusinessUnit :: Resource where
  "dataSourceBusinessUnit =
     \<lparr>Create = None, Read = Some Fn_dataSourceBusinessUnitRead, Update = None, Delete = None,
      SchemaMap =
        [(''name'', schema0\<lparr>Type := TypeString, Required := True\<rparr>),
         (''id'', schema0\<lparr>Type := TypeString, Computed := True\<rparr>),
         (''description'', schema0\<lparr>Type := TypeString, Computed := True\<rparr>)]\<rparr>"

definition businessUnitRequest :: "'w env \<Rightarrow> ResourceData \<Rightarrow> AppScanClient \<Rightarrow> error + http_request" where
  "businessUnitRequest env d client =
     (let buName = d_Get d ''name'';
          filterQuery = ''Name eq '' @ quote @ buName @ quote;
          query = Values_Set [] ''$filter'' filterQuery;
          urlStr = ApiEndpoint client @ ''/api/v4/BusinessUnits?'' @ Encode query
      in case NewRequest env ''GET'' urlStr None of
           Inl err \<Rightarrow> Inl err
         | Inr req \<Rightarrow> Inr (req_Header_Set req ''Authorization'' (''Bearer '' @ ApiToken client)))"

definition dataSourceBusinessUnitRead ::
    "'w env \<Rightarrow> ResourceData \<Rightarrow> AppScanClient \<Rightarrow> 'w \<Rightarrow> (error option \<times> ResourceData) \<times> 'w" where
  "dataSourceBusinessUnitRead env d client w =
     (let buName = d_Get d ''name'' in
      case businessUnitRequest env d client of
        Inl err \<Rightarrow> ((Some err, d), w)
      | Inr req \<Rightarrow>
          (case Client_Do env req w of
             (Inl msg, w') \<Rightarrow> ((Some (LibraryError http_Client_Do msg), d), w')
           | (Inr resp, w') \<Rightarrow>
               if StatusCode resp \<noteq> 200 then
                 ((Some (Errorf (''failed to read BusinessUnit, status: '' @ Status resp)), d), w')
               else
                 (case Body resp of
                    Inl msg \<Rightarrow> ((Some (LibraryError ioutil_ReadAll msg), d), w')
                  | Inr body \<Rightarrow>
                      (case Unmarshal_items env body of
                         Inl msg \<Rightarrow> ((Some (LibraryError json_Unmarshal msg), d), w')
                       | Inr items \<Rightarrow>
                           if length items = 0 then
                             ((Some (Errorf (''no BusinessUnit found with name: '' @ buName)), d), w')
                           else if length items > 1 then
                             ((Some (Errorf (''multiple BusinessUnits found with name: '' @ buName)), d), w')
                           else
                             (let bu = items ! 0;
                                  d1 = d_SetId d (item_Id bu)
                              in case d_Set (SchemaMap dataSourceBusinessUnit) d1 ''name'' (item_Name bu) of
                                   (Some err, d2) \<Rightarrow> ((Some err, d2), w')
                                 | (None, d2) \<Rightarrow>
                                     (case d_Set (SchemaMap dataSourceBusinessUnit) d2 ''description''
                                             (item_Description bu) of
                                        (Some err, d3) \<Rightarrow> ((Some err, d3), w')
                                      | (None, d3) \<Rightarrow> ((None, d3), w')))))))"

section \<open>The provider\<close>

definition loginRequest :: "'w env \<Rightarrow> ResourceData \<Rightarrow> error + http_request" where
  "loginRequest env d =
     (let endpoint = d_Get d ''api_endpoint'';
          keyID = d_Get d ''key_id'';
          keySecret = d_Get d ''key_secret'';
          payload = [''KeyId'' \<mapsto> keyID, ''KeySecret'' \<mapsto> keySecret]
      in case Marshal env payload of
           Inl msg \<Rightarrow> Inl (LibraryError json_Marshal msg)
         | Inr body \<Rightarrow>
             (case NewRequest env ''POST'' (endpoint @ ''/api/v4/Account/ApiKeyLogin'') (Some body) of
                Inl err \<Rightarrow> Inl err
              | Inr req \<Rightarrow> Inr (req_Header_Set req ''Content-Type'' ''application/json'')))"

definition providerConfigure :: "'w env \<Rightarrow> ResourceData \<Rightarrow> 'w \<Rightarrow> (error + AppScanClient) \<times> 'w" where
  "providerConfigure env d w =
     (let endpoint = d_Get d ''api_endpoint'' in
      case loginRequest env d of
        Inl err \<Rightarrow> (Inl err, w)
      | Inr req \<Rightarrow>
          (case Client_Do env req w of
             (Inl msg, w') \<Rightarrow> (Inl (LibraryError http_Client_Do msg), w')
           | (Inr resp, w') \<Rightarrow>
               if StatusCode resp \<noteq> 200 then
                 (Inl (Errorf (''failed to authenticate via API key, status: '' @ Status resp)), w')
               else
                 (case Body resp of
                    Inl msg \<Rightarrow> (Inl (LibraryError ioutil_ReadAll msg), w')
                  | Inr respBody \<Rightarrow>
                      (case Unmarshal_token env respBody of
                         Inl msg \<Rightarrow> (Inl (LibraryError json_Unmarshal msg), w')
                       | Inr token \<Rightarrow>
                           if token = '''' then
                             (Inl (Errorf ''failed to obtain token from API key login response''), w')
                           else (Inr \<lparr>ApiEndpoint = endpoint, ApiToken = token\<rparr>, w')))))"

record Provider =
  ProviderSchema :: "(string \<times> Schema) list"
  ResourcesMap :: "(string \<times> Resource) list"
  DataSourcesMap :: "(string \<times> Resource) list"
  ConfigureFunc :: "handler option"

definition Provider :: Provider where
  "Provider =
     \<lparr>ProviderSchema =
        [(''api_endpoint'',
            schema0\<lparr>Type := TypeString, Optional := True,
              DefaultFunc := Some (''APPSCAN_API_ENDPOINT'', Some ''https://cloud.appscan.com/'')\<rparr>),
         (''key_id'',
            schema0\<lparr>Type := TypeString, Required := True,
              DefaultFunc := Some (''APPSCAN_KEY_ID'', None)\<rparr>),
         (''key_secret'',
            schema0\<lparr>Type := TypeString, Required := True,
              DefaultFunc := Some (''APPSCAN_KEY_SECRET'', None), Sensitive := True\<rparr>)],
      ResourcesMap = [(''appscan_application'', resourceAppScanApplication)],
      DataSourcesMap =
        [(''appscan_asset_groups'', dataSourceAssetGroups),
         (''appscan_asset_group'', dataSourceAssetGroup)],
      ConfigureFunc = Some Fn_providerConfigure\<rparr>"

section \<open>Vocabulary of the properties\<close>

text \<open>The string a decoded field holds, if the field is present and is a string.\<close>

fun string_field :: "json option \<Rightarrow> string option" where
  "string_field (Some (JString s)) = Some s"
| "string_field _ = None"

text \<open>
  Attribute \<open>attr\<close> of \<open>d'\<close> is the string that the item holds under \<open>key\<close>, or what it
  was in \<open>d\<close> when the item has no string there.
\<close>

definition updated_from :: "(string \<rightharpoonup> json) \<Rightarrow> string \<Rightarrow> ResourceData \<Rightarrow> string \<Rightarrow> ResourceData \<Rightarrow> bool" where
  "updated_from app key d attr d' =
     (rd_attrs d' attr = (case string_field (app key) of Some v \<Rightarrow> Some v | None \<Rightarrow> rd_attrs d attr))"

text \<open>
  The server echoes the stored asset group: the Read that starts in server state \<open>w\<close>,
  if it gets as far as a first item, finds under AssetGroupId no string or the value of
  \<open>asset_group_id\<close> in \<open>d\<close>.
\<close>

definition read_echoes_asset_group :: "'w env \<Rightarrow> ResourceData \<Rightarrow> AppScanClient \<Rightarrow> 'w \<Rightarrow> bool" where
  "read_echoes_asset_group env d client w =
     (case applicationReadRequest env d client of
        Inl err \<Rightarrow> True
      | Inr req \<Rightarrow>
          (case Client_Do env req w of
             (Inl msg, w') \<Rightarrow> True
           | (Inr resp, w') \<Rightarrow>
               (case Body resp of
                  Inl msg \<Rightarrow> True
                | Inr b \<Rightarrow>
                    (case Unmarshal_apps env b of
                       Inl msg \<Rightarrow> True
                     | Inr items \<Rightarrow>
                         (case items of
                            [] \<Rightarrow> True
                          | app # rest \<Rightarrow>
                              (case string_field (app ''AssetGroupId'') of
                                 None \<Rightarrow> True
                               | Some v \<Rightarrow> v = d_Get d ''asset_group_id''))))))"

section \<open>Concrete environments\<close>

text \<open>
  A server that answers the n-th request with the n-th entry of a script (its state is
  the number of requests so far), an encoder that lists the payload's entries, and
  decoders that know a handful of bodies.
\<close>

definition example_marshal :: "(string \<rightharpoonup> string) \<Rightarrow> string + bytes" where
  "example_marshal p =
     Inr (concat (map (\<lambda>k. case p k of Some v \<Rightarrow> k @ ''='' @ v @ '';'' | None \<Rightarrow> '''')
            [''AssetGroupId'', ''BusinessImpact'', ''BusinessUnitId'', ''Description'',
             ''KeyId'', ''KeySecret'', ''Name'']))"

definition app_remote :: "string \<rightharpoonup> json" where
  "app_remote = [''Id'' \<mapsto> JString ''123'', ''Name'' \<mapsto> JString ''Renamed'',
                 ''Description'' \<mapsto> JNull, ''AssetGroupId'' \<mapsto> JString ''AG1'',
                 ''BusinessImpact'' \<mapsto> JString ''High'']"

definition app_other :: "string \<rightharpoonup> json" where
  "app_other = [''Id'' \<mapsto> JString ''999'', ''Name'' \<mapsto> JString ''Other'',
                ''AssetGroupId'' \<mapsto> JString ''AG2'']"

definition item_a :: Item where
  "item_a = \<lparr>item_Id = ''g1'', item_Name = ''Web'', item_Description = ''Web apps''\<rparr>"

definition item_b :: Item where
  "item_b = \<lparr>item_Id = ''g2'', item_Name = ''Web'', item_Description = ''''\<rparr>"

definition example_unmarshal_map :: "bytes \<Rightarrow> string + (string \<rightharpoonup> json)" where
  "example_unmarshal_map b =
     (if b = ''{Id:123}'' then Inr [''Id'' \<mapsto> JString ''123'']
      else if b = ''{Id:7}'' then Inr [''Id'' \<mapsto> JNumber 7]
      else if b = ''{}'' then Inr Map.empty
      else Inl ''invalid character'')"

definition example_unmarshal_apps :: "bytes \<Rightarrow> string + (string \<rightharpoonup> json) list" where
  "example_unmarshal_apps b =
     (if b = ''{Items:[]}'' then Inr []
      else if b = ''{Items:[remote]}'' then Inr [app_remote]
      else if b = ''{Items:[other]}'' then Inr [app_other]
      else if b = ''{Items:[other,remote]}'' then Inr [app_other, app_remote]
      else Inl ''invalid character'')"

definition example_unmarshal_items :: "bytes \<Rightarrow> string + Item list" where
  "example_unmarshal_items b =
     (if b = ''{Items:[]}'' then Inr []
      else if b = ''{Items:[a]}'' then Inr [item_a]
      else if b = ''{Items:[a,b]}'' then Inr [item_a, item_b]
      else Inl ''invalid character'')"

definition example_unmarshal_token :: "bytes \<Rightarrow> string + string" where
  "example_unmarshal_token b =
     (if b = ''{Token:abc}'' then Inr ''abc''
      else if b = ''{}'' then Inr ''''
      else Inl ''invalid character'')"

definition respond :: "int \<Rightarrow> string \<Rightarrow> bytes \<Rightarrow> string + http_response" where
  "respond code status body = Inr \<lparr>StatusCode = code, Status = status, Body = Inr body\<rparr>"

definition example_env :: "(string + http_response) list \<Rightarrow> nat env" where
  "example_env script =
     \<lparr>Marshal = example_marshal,
      NewRequest_error = (\<lambda>method url. None),
      Client_Do = (\<lambda>req n. (if n < length script then script ! n else Inl ''connection refused'', Suc n)),
      Unmarshal_map = example_unmarshal_map,
      Unmarshal_apps = example_unmarshal_apps,
      Unmarshal_items = example_unmarshal_items,
      Unmarshal_token = example_unmarshal_token\<rparr>"

definition example_client :: AppScanClient where
  "example_client = \<lparr>ApiEndpoint = ''https://cloud.appscan.com'', ApiToken = ''abc''\<rparr>"

text \<open>An application as configured, before Create, and as stored after it.\<close>

definition app_config :: ResourceData where
  "app_config = from_config (SchemaMap resourceAppScanApplication)
                  [''name'' \<mapsto> ''App1'', ''asset_group_id'' \<mapsto> ''AG1'']"

definition app_stored :: ResourceData where
  "app_stored = \<lparr>rd_id = ''123'',
                  rd_attrs = [''name'' \<mapsto> ''App1'', ''asset_group_id'' \<mapsto> ''AG1'',
                              ''business_impact'' \<mapsto> ''Unspecified''],
                  rd_lists = Map.empty\<rparr>"

definition lookup_config :: ResourceData where
  "lookup_config = \<lparr>rd_id = '''', rd_attrs = [''name'' \<mapsto> ''Web''], rd_lists = Map.empty\<rparr>"

definition unnamed_config :: ResourceData where
  "unnamed_config = \<lparr>rd_id = '''', rd_attrs = Map.empty, rd_lists = Map.empty\<rparr>"

definition provider_config :: ResourceData where
  "provider_config = \<lparr>rd_id = '''',
                       rd_attrs = [''api_endpoint'' \<mapsto> ''https://cloud.appscan.com'',
                                   ''key_id'' \<mapsto> ''k'', ''key_secret'' \<mapsto> ''s''],
                       rd_lists = Map.empty\<rparr>"

section \<open>Facts about the model\<close>

subsection \<open>Writing the attributes of an application\<close>

lemma d_Set_application:
  "attr \<in> {''name'', ''description'', ''asset_group_id'', ''business_unit_id'', ''business_impact''}
   \<Longrightarrow> d_Set (SchemaMap resourceAppScanApplication) d attr v =
         (None, d\<lparr>rd_attrs := (rd_attrs d)(attr \<mapsto> v)\<rparr>)"
  by (auto simp add: d_Set_def resourceAppScanApplication_def schema0_def)

lemma set_if_string_eq:
  assumes "attr \<in> {''name'', ''description'', ''asset_group_id'', ''business_unit_id'',
                    ''business_impact''}"
  shows "set_if_string d app key attr =
       d\<lparr>rd_attrs := (rd_attrs d)(attr := (case string_field (app key) of
                                               Some v \<Rightarrow> Some v
                                             | None \<Rightarrow> rd_attrs d attr))\<rparr>"
  unfolding set_if_string_def
  by (cases "app key" rule: string_field.cases) (simp_all add: d_Set_application [OF assms])

lemma applicationReadFields_id: "rd_id (applicationReadFields d app) = rd_id d"
  by (simp add: applicationReadFields_def set_if_string_eq Let_def)

lemma applicationReadFields_lists: "rd_lists (applicationReadFields d app) = rd_lists d"
  by (simp add: applicationReadFields_def set_if_string_eq Let_def)

lemma applicationReadFields_updated:
  "updated_from app ''Name'' d ''name'' (applicationReadFields d app)"
  "updated_from app ''Description'' d ''description'' (applicationReadFields d app)"
  "updated_from app ''AssetGroupId'' d ''asset_group_id'' (applicationReadFields d app)"
  "updated_from app ''BusinessUnitId'' d ''business_unit_id'' (applicationReadFields d app)"
  "updated_from app ''BusinessImpact'' d ''business_impact'' (applicationReadFields d app)"
  by (simp_all add: applicationReadFields_def set_if_string_eq Let_def updated_from_def
        split: option.split)

lemma applicationReadFields_frame:
  "k \<notin> {''name'', ''description'', ''asset_group_id'', ''business_unit_id'', ''business_impact''}
   \<Longrightarrow> rd_attrs (applicationReadFields d app) k = rd_attrs d k"
  by (simp add: applicationReadFields_def set_if_string_eq Let_def)

text \<open>The Read of \<^verbatim>\<open>main.go\<close> touches the name and the description, nothing else.\<close>

lemma applicationReadFields_main_sets:
  "updated_from app ''Name'' d ''name'' (applicationReadFields_main d app)"
  "updated_from app ''Description'' d ''description'' (applicationReadFields_main d app)"
  "k \<notin> {''name'', ''description''} \<Longrightarrow>
     rd_attrs (applicationReadFields_main d app) k = rd_attrs d k"
  "rd_id (applicationReadFields_main d app) = rd_id d"
  "rd_lists (applicationReadFields_main d app) = rd_lists d"
  by (cases "app ''Name''" rule: string_field.cases;
      cases "app ''Description''" rule: string_field.cases;
      simp add: applicationReadFields_main_def updated_from_def d_Set_def
        resourceAppScanApplication_main_def schema0_def)+

subsection \<open>The concrete environments\<close>

lemma example_read_request:
  "\<exists>req. applicationReadRequest (example_env script) d client = Inr req"
  by (simp add: applicationReadRequest_def NewRequest_def example_env_def Let_def)

lemma example_do_first:
  "Client_Do (example_env (respond code st body # script)) req 0 =
     (Inr \<lparr>StatusCode = code, Status = st, Body = Inr body\<rparr>, Suc 0)"
  by (simp add: example_env_def respond_def)

lemma example_unmarshal_apps [simp]:
  "Unmarshal_apps (example_env script) = example_unmarshal_apps"
  by (simp add: example_env_def)

section \<open>Application: Read\<close>

subsection \<open>The Read of the provider package\<close>

lemma provider_read_outcomes:
  assumes req: "applicationReadRequest env d client = Inr req"
      and do: "Client_Do env req w = (Inr resp, w')"
  shows "(StatusCode resp = 404 \<longrightarrow>
            resourceAppScanApplicationRead env d client w = ((None, d\<lparr>rd_id := ''''\<rparr>), w'))
       \<and> (StatusCode resp = 200 \<and> Body resp = Inr b \<and> Unmarshal_apps env b = Inr [] \<longrightarrow>
            resourceAppScanApplicationRead env d client w = ((None, d\<lparr>rd_id := ''''\<rparr>), w'))
       \<and> (StatusCode resp \<noteq> 404 \<and> StatusCode resp \<noteq> 200 \<longrightarrow>
            resourceAppScanApplicationRead env d client w =
              ((Some (Errorf (''failed to read application, status: '' @ Status resp)), d), w'))
       \<and> (StatusCode resp = 200 \<and> Body resp = Inr b \<and> Unmarshal_apps env b = Inr (app # rest) \<longrightarrow>
            (\<exists>d'. resourceAppScanApplicationRead env d client w = ((None, d'), w')
               \<and> rd_id d' = rd_id d \<and> rd_lists d' = rd_lists d
               \<and> updated_from app ''Name'' d ''name'' d'
               \<and> updated_from app ''Description'' d ''description'' d'
               \<and> updated_from app ''AssetGroupId'' d ''asset_group_id'' d'
               \<and> updated_from app ''BusinessUnitId'' d ''business_unit_id'' d'
               \<and> updated_from app ''BusinessImpact'' d ''business_impact'' d'
               \<and> (\<forall>k. k \<notin> {''name'', ''description'', ''asset_group_id'', ''business_unit_id'',
                            ''business_impact''} \<longrightarrow> rd_attrs d' k = rd_attrs d k)))"
proof (intro conjI impI)
  assume "StatusCode resp = 404"
  then show "resourceAppScanApplicationRead env d client w = ((None, d\<lparr>rd_id := ''''\<rparr>), w')"
    by (simp add: resourceAppScanApplicationRead_def req do d_SetId_def)
next
  assume "StatusCode resp = 200 \<and> Body resp = Inr b \<and> Unmarshal_apps env b = Inr []"
  then show "resourceAppScanApplicationRead env d client w = ((None, d\<lparr>rd_id := ''''\<rparr>), w')"
    by (simp add: resourceAppScanApplicationRead_def req do d_SetId_def)
next
  assume "StatusCode resp \<noteq> 404 \<and> StatusCode resp \<noteq> 200"
  then show "resourceAppScanApplicationRead env d client w =
      ((Some (Errorf (''failed to read application, status: '' @ Status resp)), d), w')"
    by (simp add: resourceAppScanApplicationRead_def req do)
next
  assume h: "StatusCode resp = 200 \<and> Body resp = Inr b \<and> Unmarshal_apps env b = Inr (app # rest)"
  then have "resourceAppScanApplicationRead env d client w =
      ((None, applicationReadFields d app), w')"
    by (simp add: resourceAppScanApplicationRead_def req do)
  then show "\<exists>d'. resourceAppScanApplicationRead env d client w = ((None, d'), w')
               \<and> rd_id d' = rd_id d \<and> rd_lists d' = rd_lists d
               \<and> updated_from app ''Name'' d ''name'' d'
               \<and> updated_from app ''Description'' d ''description'' d'
               \<and> updated_from app ''AssetGroupId'' d ''asset_group_id'' d'
               \<and> updated_from app ''BusinessUnitId'' d ''business_unit_id'' d'
               \<and> updated_from app ''BusinessImpact'' d ''business_impact'' d'
               \<and> (\<forall>k. k \<notin> {''name'', ''description'', ''asset_group_id'', ''business_unit_id'',
                            ''business_impact''} \<longrightarrow> rd_attrs d' k = rd_attrs d k)"
    by (intro exI [where x = "applicationReadFields d app"])
       (simp add: applicationReadFields_id applicationReadFields_lists
          applicationReadFields_updated applicationReadFields_frame)
qed

subsection \<open>The Read of main.go\<close>

lemma main_read_outcomes:
  assumes req: "applicationReadRequest env d client = Inr req"
      and do: "Client_Do env req w = (Inr resp, w')"
  shows "(StatusCode resp = 404 \<longrightarrow>
            resourceAppScanApplicationRead_main env d client w = ((None, d\<lparr>rd_id := ''''\<rparr>), w'))
       \<and> (StatusCode resp = 200 \<and> Body resp = Inr b \<and> Unmarshal_apps env b = Inr [] \<longrightarrow>
            resourceAppScanApplicationRead_main env d client w = ((None, d\<lparr>rd_id := ''''\<rparr>), w'))
       \<and> (StatusCode resp \<noteq> 404 \<and> StatusCode resp \<noteq> 200 \<longrightarrow>
            resourceAppScanApplicationRead_main env d client w =
              ((Some (Errorf (''failed to read application, status: '' @ Status resp)), d), w'))
       \<and> (StatusCode resp = 200 \<and> Body resp = Inr b \<and> Unmarshal_apps env b = Inr (app # rest) \<longrightarrow>
            (\<exists>d'. resourceAppScanApplicationRead_main env d client w = ((None, d'), w')
               \<and> rd_id d' = rd_id d \<and> rd_lists d' = rd_lists d
               \<and> updated_from app ''Name'' d ''name'' d'
               \<and> updated_from app ''Description'' d ''description'' d'
               \<and> (\<forall>k. k \<notin> {''name'', ''description''} \<longrightarrow> rd_attrs d' k = rd_attrs d k)))"
proof (intro conjI impI)
  assume "StatusCode resp = 404"
  then show "resourceAppScanApplicationRead_main env d client w = ((None, d\<lparr>rd_id := ''''\<rparr>), w')"
    by (simp add: resourceAppScanApplicationRead_main_def req do d_SetId_def)
next
  assume "StatusCode resp = 200 \<and> Body resp = Inr b \<and> Unmarshal_apps env b = Inr []"
  then show "resourceAppScanApplicationRead_main env d client w = ((None, d\<lparr>rd_id := ''''\<rparr>), w')"
    by (simp add: resourceAppScanApplicationRead_main_def req do d_SetId_def)
next
  assume "StatusCode resp \<noteq> 404 \<and> StatusCode resp \<noteq> 200"
  then show "resourceAppScanApplicationRead_main env d client w =
      ((Some (Errorf (''failed to read application, status: '' @ Status resp)), d), w')"
    by (simp add: resourceAppScanApplicationRead_main_def req do)
next
  assume h: "StatusCode resp = 200 \<and> Body resp = Inr b \<and> Unmarshal_apps env b = Inr (app # rest)"
  then have "resourceAppScanApplicationRead_main env d client w =
      ((None, applicationReadFields_main d app), w')"
    by (simp add: resourceAppScanApplicationRead_main_def req do)
  then show "\<exists>d'. resourceAppScanApplicationRead_main env d client w = ((None, d'), w')
               \<and> rd_id d' = rd_id d \<and> rd_lists d' = rd_lists d
               \<and> updated_from app ''Name'' d ''name'' d'
               \<and> updated_from app ''Description'' d ''description'' d'
               \<and> (\<forall>k. k \<notin> {''name'', ''description''} \<longrightarrow> rd_attrs d' k = rd_attrs d k)"
    by (intro exI [where x = "applicationReadFields_main d app"])
       (simp add: applicationReadFields_main_sets)
qed

subsection \<open>Both\<close>

text \<open>
  Claim C1, as the code has it. There are two Reads of an application, the one of the
  provider package and the one of \<^verbatim>\<open>main.go\<close>. For both, once the request is built and
  the server has answered, and for every local id: on status 404, and on status 200 with
  an empty decoded \<^verbatim>\<open>Items\<close>, Read clears the local id and returns no error; on any other
  status except 200 it returns the error ``failed to read application, status: ...'' and
  leaves the local state as it was; on status 200 with at least one item it returns no
  error and keeps the id. On that last path the Read of the provider package sets each of
  name, description, asset\_group\_id, business\_unit\_id and business\_impact to the
  string the first item holds under Name, Description, AssetGroupId, BusinessUnitId and
  BusinessImpact, leaving an attribute whose field is absent or not a string, and every
  other attribute, unchanged; the Read of \<^verbatim>\<open>main.go\<close> does so for name and description
  only, and leaves asset\_group\_id, business\_unit\_id, business\_impact and every other
  attribute unchanged whatever the item holds.
\<close>

theorem application_read_outcomes:
  assumes req: "applicationReadRequest env d client = Inr req"
      and do: "Client_Do env req w = (Inr resp, w')"
  shows "((StatusCode resp = 404 \<longrightarrow>
             resourceAppScanApplicationRead env d client w = ((None, d\<lparr>rd_id := ''''\<rparr>), w'))
        \<and> (StatusCode resp = 200 \<and> Body resp = Inr b \<and> Unmarshal_apps env b = Inr [] \<longrightarrow>
             resourceAppScanApplicationRead env d client w = ((None, d\<lparr>rd_id := ''''\<rparr>), w'))
        \<and> (StatusCode resp \<noteq> 404 \<and> StatusCode resp \<noteq> 200 \<longrightarrow>
             resourceAppScanApplicationRead env d client w =
               ((Some (Errorf (''failed to read application, status: '' @ Status resp)), d), w'))
        \<and> (StatusCode resp = 200 \<and> Body resp = Inr b \<and> Unmarshal_apps env b = Inr (app # rest) \<longrightarrow>
             (\<exists>d'. resourceAppScanApplicationRead env d client w = ((None, d'), w')
                \<and> rd_id d' = rd_id d \<and> rd_lists d' = rd_lists d
                \<and> updated_from app ''Name'' d ''name'' d'
                \<and> updated_from app ''Description'' d ''description'' d'
                \<and> updated_from app ''AssetGroupId'' d ''asset_group_id'' d'
                \<and> updated_from app ''BusinessUnitId'' d ''business_unit_id'' d'
                \<and> updated_from app ''BusinessImpact'' d ''business_impact'' d'
                \<and> (\<forall>k. k \<notin> {''name'', ''description'', ''asset_group_id'', ''business_unit_id'',
                             ''business_impact''} \<longrightarrow> rd_attrs d' k = rd_attrs d k))))
       \<and> ((StatusCode resp = 404 \<longrightarrow>
             resourceAppScanApplicationRead_main env d client w = ((None, d\<lparr>rd_id := ''''\<rparr>), w'))
        \<and> (StatusCode resp = 200 \<and> Body resp = Inr b \<and> Unmarshal_apps env b = Inr [] \<longrightarrow>
             resourceAppScanApplicationRead_main env d client w = ((None, d\<lparr>rd_id := ''''\<rparr>), w'))
        \<and> (StatusCode resp \<noteq> 404 \<and> StatusCode resp \<noteq> 200 \<longrightarrow>
             resourceAppScanApplicationRead_main env d client w =
               ((Some (Errorf (''failed to read application, status: '' @ Status resp)), d), w'))
        \<and> (StatusCode resp = 200 \<and> Body resp = Inr b \<and> Unmarshal_apps env b = Inr (app # rest) \<longrightarrow>
             (\<exists>d'. resourceAppScanApplicationRead_main env d client w = ((None, d'), w')
                \<and> rd_id d' = rd_id d \<and> rd_lists d' = rd_lists d
                \<and> updated_from app ''Name'' d ''name'' d'
                \<and> updated_from app ''Description'' d ''description'' d'
                \<and> (\<forall>k. k \<notin> {''name'', ''description''} \<longrightarrow> rd_attrs d' k = rd_attrs d k))))"
  by (rule conjI [OF provider_read_outcomes [OF req do] main_read_outcomes [OF req do]])

text \<open>
  The claim as stated, five attributes for every Read, fails on the Read of \<^verbatim>\<open>main.go\<close>:
  the stored application has the asset group AG1, the item of a 200 answer holds the
  string AG2 under AssetGroupId, and after the Read the asset group is still AG1, while
  the name is the item's.
\<close>

theorem main_read_leaves_asset_group:
  "resourceAppScanApplicationRead_main (example_env [respond 200 ''200 OK'' ''{Items:[other]}''])
       app_stored example_client 0 =
     ((None, applicationReadFields_main app_stored app_other), 1)
   \<and> app_other ''AssetGroupId'' = Some (JString ''AG2'')
   \<and> rd_attrs app_stored ''asset_group_id'' = Some ''AG1''
   \<and> rd_attrs (applicationReadFields_main app_stored app_other) ''asset_group_id'' = Some ''AG1''
   \<and> rd_attrs (applicationReadFields_main app_stored app_other) ''name'' = Some ''Other''
   \<and> \<not> updated_from app_other ''AssetGroupId'' app_stored ''asset_group_id''
         (applicationReadFields_main app_stored app_other)"
  by (simp add: resourceAppScanApplicationRead_main_def applicationReadRequest_def NewRequest_def
      Let_def example_env_def respond_def example_unmarshal_apps_def
      applicationReadFields_main_def d_Set_def resourceAppScanApplication_main_def schema0_def
      updated_from_def app_other_def app_stored_def)

text \<open>
  The cases on a stored application with id 123: a 404, an empty list, a 500, and an
  item that renames the application, raises its impact and holds a null description,
  read by the provider package and by \<^verbatim>\<open>main.go\<close>.
\<close>

theorem application_read_outcomes_witness:
  "rd_id app_stored \<noteq> ''''
   \<and> resourceAppScanApplicationRead (example_env [respond 404 ''404 Not Found'' '''']) app_stored
         example_client 0 = ((None, app_stored\<lparr>rd_id := ''''\<rparr>), 1)
   \<and> resourceAppScanApplicationRead (example_env [respond 200 ''200 OK'' ''{Items:[]}'']) app_stored
         example_client 0 = ((None, app_stored\<lparr>rd_id := ''''\<rparr>), 1)
   \<and> resourceAppScanApplicationRead (example_env [respond 500 ''500 Internal Server Error'' ''''])
         app_stored example_client 0 =
       ((Some (Errorf ''failed to read application, status: 500 Internal Server Error''), app_stored), 1)
   \<and> (\<exists>d'. resourceAppScanApplicationRead (example_env [respond 200 ''200 OK'' ''{Items:[remote]}''])
               app_stored example_client 0 = ((None, d'), 1)
          \<and> rd_id d' = ''123''
          \<and> rd_attrs d' ''name'' = Some ''Renamed''
          \<and> rd_attrs d' ''description'' = None
          \<and> rd_attrs d' ''asset_group_id'' = Some ''AG1''
          \<and> rd_attrs d' ''business_unit_id'' = None
          \<and> rd_attrs d' ''business_impact'' = Some ''High'')
   \<and> resourceAppScanApplicationRead_main (example_env [respond 404 ''404 Not Found'' ''''])
         app_stored example_client 0 = ((None, app_stored\<lparr>rd_id := ''''\<rparr>), 1)
   \<and> resourceAppScanApplicationRead_main (example_env [respond 200 ''200 OK'' ''{Items:[]}''])
         app_stored example_client 0 = ((None, app_stored\<lparr>rd_id := ''''\<rparr>), 1)
   \<and> resourceAppScanApplicationRead_main (example_env [respond 500 ''500 Internal Server Error'' ''''])
         app_stored example_client 0 =
       ((Some (Errorf ''failed to read application, status: 500 Internal Server Error''), app_stored), 1)
   \<and> (\<exists>d'. resourceAppScanApplicationRead_main
               (example_env [respond 200 ''200 OK'' ''{Items:[remote]}''])
               app_stored example_client 0 = ((None, d'), 1)
          \<and> rd_id d' = ''123''
          \<and> rd_attrs d' ''name'' = Some ''Renamed''
          \<and> rd_attrs d' ''description'' = None
          \<and> rd_attrs d' ''asset_group_id'' = Some ''AG1''
          \<and> rd_attrs d' ''business_unit_id'' = None
          \<and> rd_attrs d' ''business_impact'' = Some ''Unspecified'')"
proof -
  let ?gone = "example_env [respond 404 ''404 Not Found'' '''']"
  let ?none = "example_env [respond 200 ''200 OK'' ''{Items:[]}'']"
  let ?fail = "example_env [respond 500 ''500 Internal Server Error'' '''']"
  let ?item = "example_env [respond 200 ''200 OK'' ''{Items:[remote]}'']"
  obtain r1 where r1: "applicationReadRequest ?gone app_stored example_client = Inr r1"
    using example_read_request by blast
  obtain r2 where r2: "applicationReadRequest ?none app_stored example_client = Inr r2"
    using example_read_request by blast
  obtain r3 where r3: "applicationReadRequest ?fail app_stored example_client = Inr r3"
    using example_read_request by blast
  obtain r4 where r4: "applicationReadRequest ?item app_stored example_client = Inr r4"
    using example_read_request by blast
  note t1 = application_read_outcomes [OF r1 example_do_first]
  note t2 = application_read_outcomes [OF r2 example_do_first, of "''{Items:[]}''"]
  note t3 = application_read_outcomes [OF r3 example_do_first]
  note t4 = application_read_outcomes [OF r4 example_do_first, of "''{Items:[remote]}''"
      app_remote "[]"]
  have c0: "rd_id app_stored \<noteq> ''''"
    by (simp add: app_stored_def)
  have c1: "resourceAppScanApplicationRead ?gone app_stored example_client 0 =
      ((None, app_stored\<lparr>rd_id := ''''\<rparr>), 1)"
    using t1 [THEN conjunct1] by simp
  have c2: "resourceAppScanApplicationRead ?none app_stored example_client 0 =
      ((None, app_stored\<lparr>rd_id := ''''\<rparr>), 1)"
    using t2 [THEN conjunct1] by (simp add: example_unmarshal_apps_def)
  have c3: "resourceAppScanApplicationRead ?fail app_stored example_client 0 =
       ((Some (Errorf ''failed to read application, status: 500 Internal Server Error''), app_stored), 1)"
    using t3 [THEN conjunct1] by simp
  have c4: "\<exists>d'. resourceAppScanApplicationRead ?item app_stored example_client 0 = ((None, d'), 1)
          \<and> rd_id d' = ''123''
          \<and> rd_attrs d' ''name'' = Some ''Renamed''
          \<and> rd_attrs d' ''description'' = None
          \<and> rd_attrs d' ''asset_group_id'' = Some ''AG1''
          \<and> rd_attrs d' ''business_unit_id'' = None
          \<and> rd_attrs d' ''business_impact'' = Some ''High''"
    using t4 [THEN conjunct1]
    by (simp add: example_unmarshal_apps_def updated_from_def app_remote_def app_stored_def) blast
  have m1: "resourceAppScanApplicationRead_main ?gone app_stored example_client 0 =
      ((None, app_stored\<lparr>rd_id := ''''\<rparr>), 1)"
    using t1 [THEN conjunct2] by simp
  have m2: "resourceAppScanApplicationRead_main ?none app_stored example_client 0 =
      ((None, app_stored\<lparr>rd_id := ''''\<rparr>), 1)"
    using t2 [THEN conjunct2] by (simp add: example_unmarshal_apps_def)
  have m3: "resourceAppScanApplicationRead_main ?fail app_stored example_client 0 =
       ((Some (Errorf ''failed to read application, status: 500 Internal Server Error''), app_stored), 1)"
    using t3 [THEN conjunct2] by simp
  have m4: "\<exists>d'. resourceAppScanApplicationRead_main ?item app_stored example_client 0 = ((None, d'), 1)
          \<and> rd_id d' = ''123''
          \<and> rd_attrs d' ''name'' = Some ''Renamed''
          \<and> rd_attrs d' ''description'' = None
          \<and> rd_attrs d' ''asset_group_id'' = Some ''AG1''
          \<and> rd_attrs d' ''business_unit_id'' = None
          \<and> rd_attrs d' ''business_impact'' = Some ''Unspecified''"
  proof -
    let ?resp = "\<lparr>StatusCode = 200, Status = ''200 OK'', Body = Inr ''{Items:[remote]}''\<rparr>"
    have h: "StatusCode ?resp = 200 \<and> Body ?resp = Inr ''{Items:[remote]}''
        \<and> Unmarshal_apps ?item ''{Items:[remote]}'' = Inr (app_remote # [])"
      by (simp add: example_unmarshal_apps_def)
    from t4 [THEN conjunct2, THEN conjunct2, THEN conjunct2, THEN conjunct2, THEN mp, OF h]
    obtain d' where r: "resourceAppScanApplicationRead_main ?item app_stored example_client 0 =
          ((None, d'), Suc 0)"
      and i: "rd_id d' = rd_id app_stored"
      and n: "updated_from app_remote ''Name'' app_stored ''name'' d'"
      and de: "updated_from app_remote ''Description'' app_stored ''description'' d'"
      and frame: "\<forall>k. k \<notin> {''name'', ''description''} \<longrightarrow> rd_attrs d' k = rd_attrs app_stored k"
      by (elim exE conjE)
    have "rd_id d' = ''123''"
      using i by (simp add: app_stored_def)
    moreover have "rd_attrs d' ''name'' = Some ''Renamed''"
      using n by (simp add: updated_from_def app_remote_def)
    moreover have "rd_attrs d' ''description'' = None"
      using de by (simp add: updated_from_def app_remote_def app_stored_def)
    moreover have "rd_attrs d' ''asset_group_id'' = Some ''AG1''"
      using frame [rule_format, of "''asset_group_id''"] by (simp add: app_stored_def)
    moreover have "rd_attrs d' ''business_unit_id'' = None"
      using frame [rule_format, of "''business_unit_id''"] by (simp add: app_stored_def)
    moreover have "rd_attrs d' ''business_impact'' = Some ''Unspecified''"
      using frame [rule_format, of "''business_impact''"] by (simp add: app_stored_def)
    ultimately show ?thesis
      using r by (intro exI [where x = d']) simp
  qed
  from c0 c1 c2 c3 c4 m1 m2 m3 m4 show ?thesis by - (intro conjI; assumption)
qed

section \<open>Application: Update\<close>

subsection \<open>What a Read can do to the local state\<close>

lemma read_error_unchanged:
  "resourceAppScanApplicationRead env d client w = ((Some e, d'), w') \<Longrightarrow> d' = d"
  by (auto simp add: resourceAppScanApplicationRead_def split: sum.splits prod.splits if_splits)

lemma read_result_cases:
  "resourceAppScanApplicationRead env d client w = ((e, d'), w')
   \<Longrightarrow> d' = d \<or> d' = d\<lparr>rd_id := ''''\<rparr>
       \<or> (\<exists>req resp b app rest. applicationReadRequest env d client = Inr req
             \<and> Client_Do env req w = (Inr resp, w') \<and> Body resp = Inr b
             \<and> Unmarshal_apps env b = Inr (app # rest) \<and> d' = applicationReadFields d app)"
  by (auto simp add: resourceAppScanApplicationRead_def d_SetId_def neq_Nil_conv
      split: sum.splits prod.splits if_splits)

lemma read_keeps_asset_group:
  assumes "resourceAppScanApplicationRead env d client w = ((e, d'), w')"
      and "read_echoes_asset_group env d client w"
  shows "d_Get d' ''asset_group_id'' = d_Get d ''asset_group_id''"
proof -
  from read_result_cases [OF assms(1)]
  consider "d' = d" | "d' = d\<lparr>rd_id := ''''\<rparr>"
    | req resp b app rest where "applicationReadRequest env d client = Inr req"
        "Client_Do env req w = (Inr resp, w')" "Body resp = Inr b"
        "Unmarshal_apps env b = Inr (app # rest)" "d' = applicationReadFields d app"
    by blast
  then show ?thesis
  proof cases
    case 1
    then show ?thesis by simp
  next
    case 2
    then show ?thesis by (simp add: d_Get_def)
  next
    case 3
    from assms(2) 3 have "case string_field (app ''AssetGroupId'') of
        None \<Rightarrow> True | Some v \<Rightarrow> v = d_Get d ''asset_group_id''"
      by (simp add: read_echoes_asset_group_def)
    with applicationReadFields_updated(3) [of app d] 3(5) show ?thesis
      by (auto simp add: updated_from_def d_Get_def split: option.splits)
  qed
qed


subsection \<open>The payload and the request of Update\<close>

lemma update_payload_dom:
  "dom (applicationUpdatePayload d) =
     {''Name'', ''Description'', ''BusinessImpact''}
       \<union> (if d_Get d ''business_unit_id'' \<noteq> '''' then {''BusinessUnitId''} else {})"
  by (auto simp add: applicationUpdatePayload_def d_GetOk_def Let_def split: if_splits)

lemma update_payload_values:
  "applicationUpdatePayload d ''Name'' = Some (d_Get d ''name'')"
  "applicationUpdatePayload d ''Description'' = Some (d_Get d ''description'')"
  "applicationUpdatePayload d ''BusinessImpact'' = Some (d_Get d ''business_impact'')"
  "applicationUpdatePayload d ''BusinessUnitId'' =
     (if d_Get d ''business_unit_id'' \<noteq> '''' then Some (d_Get d ''business_unit_id'') else None)"
  "applicationUpdatePayload d ''AssetGroupId'' = None"
  by (simp_all add: applicationUpdatePayload_def d_GetOk_def Let_def)

lemma update_request_shape:
  "applicationUpdateRequest env d client = Inr req \<Longrightarrow>
     Method req = ''PUT'' \<and> URL req = ApiEndpoint client @ ''/api/v4/Apps/'' @ rd_id d
     \<and> (\<exists>body. RequestBody req = Some body \<and> Marshal env (applicationUpdatePayload d) = Inr body)"
  by (auto simp add: applicationUpdateRequest_def NewRequest_def req_Header_Set_def d_Id_def Let_def
      split: sum.splits option.splits)

lemma update_status:
  assumes "applicationUpdateRequest env d client = Inr req"
      and "Client_Do env req w = (Inr resp, w1)"
  shows "StatusCode resp \<noteq> 200 \<Longrightarrow> resourceAppScanApplicationUpdate env d client w =
           ((Some (Errorf (''failed to update application, status: '' @ Status resp)), d), w1)"
    and "StatusCode resp = 200 \<Longrightarrow> resourceAppScanApplicationUpdate env d client w =
           resourceAppScanApplicationRead env d client w1"
  using assms by (simp_all add: resourceAppScanApplicationUpdate_def)

lemma update_result_cases:
  "snd (fst (resourceAppScanApplicationUpdate env d client w)) = d
   \<or> (\<exists>req resp w1. applicationUpdateRequest env d client = Inr req
         \<and> Client_Do env req w = (Inr resp, w1) \<and> StatusCode resp = 200
         \<and> resourceAppScanApplicationUpdate env d client w = resourceAppScanApplicationRead env d client w1)"
  by (auto simp add: resourceAppScanApplicationUpdate_def split: sum.splits prod.splits)

lemma update_keeps_asset_group:
  assumes "\<forall>req resp w1. applicationUpdateRequest env d client = Inr req
              \<and> Client_Do env req w = (Inr resp, w1) \<and> StatusCode resp = 200
            \<longrightarrow> read_echoes_asset_group env d client w1"
  shows "d_Get (snd (fst (resourceAppScanApplicationUpdate env d client w))) ''asset_group_id'' =
         d_Get d ''asset_group_id''"
proof -
  from update_result_cases [of env d client w]
  consider "snd (fst (resourceAppScanApplicationUpdate env d client w)) = d"
    | req resp w1 where "applicationUpdateRequest env d client = Inr req"
        "Client_Do env req w = (Inr resp, w1)" "StatusCode resp = 200"
        "resourceAppScanApplicationUpdate env d client w = resourceAppScanApplicationRead env d client w1"
    by blast
  then show ?thesis
  proof cases
    case 1
    then show ?thesis by simp
  next
    case 2
    with assms have echo: "read_echoes_asset_group env d client w1" by blast
    obtain e d' w' where r: "resourceAppScanApplicationRead env d client w1 = ((e, d'), w')"
      by (metis surj_pair)
    from read_keeps_asset_group [OF r echo] 2(4) r show ?thesis by simp
  qed
qed

text \<open>
  Claim C3. The payload of Update holds Name, Description and BusinessImpact, holds
  BusinessUnitId exactly when \<^verbatim>\<open>d.GetOk("business_unit_id")\<close> is ok (the attribute is
  not the empty string), and never holds AssetGroupId; it goes by PUT to
  \<^verbatim>\<open>{endpoint}/api/v4/Apps/{id}\<close>. Once the server has answered, a status other than
  200 gives the error ``failed to update application, status: ...'' with the local state
  unchanged, and status 200 makes Update the Read that follows. If that Read, where it
  gets an item, gets the stored asset group echoed, \<open>asset_group_id\<close> after Update is
  what it was before (on every path, failing ones included).
\<close>

theorem application_update_outcomes:
  "dom (applicationUpdatePayload d) =
     {''Name'', ''Description'', ''BusinessImpact''}
       \<union> (if d_Get d ''business_unit_id'' \<noteq> '''' then {''BusinessUnitId''} else {})
   \<and> applicationUpdatePayload d ''AssetGroupId'' = None
   \<and> applicationUpdatePayload d ''Name'' = Some (d_Get d ''name'')
   \<and> applicationUpdatePayload d ''Description'' = Some (d_Get d ''description'')
   \<and> applicationUpdatePayload d ''BusinessImpact'' = Some (d_Get d ''business_impact'')
   \<and> applicationUpdatePayload d ''BusinessUnitId'' =
       (if d_Get d ''business_unit_id'' \<noteq> '''' then Some (d_Get d ''business_unit_id'') else None)
   \<and> (\<forall>req. applicationUpdateRequest env d client = Inr req \<longrightarrow>
         Method req = ''PUT'' \<and> URL req = ApiEndpoint client @ ''/api/v4/Apps/'' @ rd_id d
         \<and> (\<exists>body. RequestBody req = Some body
                \<and> Marshal env (applicationUpdatePayload d) = Inr body))
   \<and> (\<forall>req resp w1. applicationUpdateRequest env d client = Inr req
           \<and> Client_Do env req w = (Inr resp, w1) \<longrightarrow>
         (StatusCode resp \<noteq> 200 \<longrightarrow>
            resourceAppScanApplicationUpdate env d client w =
              ((Some (Errorf (''failed to update application, status: '' @ Status resp)), d), w1))
       \<and> (StatusCode resp = 200 \<longrightarrow>
            resourceAppScanApplicationUpdate env d client w =
              resourceAppScanApplicationRead env d client w1))
   \<and> ((\<forall>req resp w1. applicationUpdateRequest env d client = Inr req
           \<and> Client_Do env req w = (Inr resp, w1) \<and> StatusCode resp = 200
         \<longrightarrow> read_echoes_asset_group env d client w1) \<longrightarrow>
        d_Get (snd (fst (resourceAppScanApplicationUpdate env d client w))) ''asset_group_id'' =
          d_Get d ''asset_group_id'')"
proof (intro conjI)
  show "dom (applicationUpdatePayload d) =
     {''Name'', ''Description'', ''BusinessImpact''}
       \<union> (if d_Get d ''business_unit_id'' \<noteq> '''' then {''BusinessUnitId''} else {})"
    by (rule update_payload_dom)
  show "applicationUpdatePayload d ''AssetGroupId'' = None"
    and "applicationUpdatePayload d ''Name'' = Some (d_Get d ''name'')"
    and "applicationUpdatePayload d ''Description'' = Some (d_Get d ''description'')"
    and "applicationUpdatePayload d ''BusinessImpact'' = Some (d_Get d ''business_impact'')"
    and "applicationUpdatePayload d ''BusinessUnitId'' =
       (if d_Get d ''business_unit_id'' \<noteq> '''' then Some (d_Get d ''business_unit_id'') else None)"
    by (rule update_payload_values)+
  show "\<forall>req. applicationUpdateRequest env d client = Inr req \<longrightarrow>
         Method req = ''PUT'' \<and> URL req = ApiEndpoint client @ ''/api/v4/Apps/'' @ rd_id d
         \<and> (\<exists>body. RequestBody req = Some body
                \<and> Marshal env (applicationUpdatePayload d) = Inr body)"
    by (intro allI impI) (rule update_request_shape)
  show "\<forall>req resp w1. applicationUpdateRequest env d client = Inr req
           \<and> Client_Do env req w = (Inr resp, w1) \<longrightarrow>
         (StatusCode resp \<noteq> 200 \<longrightarrow>
            resourceAppScanApplicationUpdate env d client w =
              ((Some (Errorf (''failed to update application, status: '' @ Status resp)), d), w1))
       \<and> (StatusCode resp = 200 \<longrightarrow>
            resourceAppScanApplicationUpdate env d client w =
              resourceAppScanApplicationRead env d client w1)"
    by (intro allI impI conjI; elim conjE) (simp_all add: update_status)
  show "(\<forall>req resp w1. applicationUpdateRequest env d client = Inr req
           \<and> Client_Do env req w = (Inr resp, w1) \<and> StatusCode resp = 200
         \<longrightarrow> read_echoes_asset_group env d client w1) \<longrightarrow>
        d_Get (snd (fst (resourceAppScanApplicationUpdate env d client w))) ''asset_group_id'' =
          d_Get d ''asset_group_id''"
    by (rule impI) (rule update_keeps_asset_group)
qed


text \<open>
  A stored application without business unit: a refused Update, and an Update followed
  by a Read whose item echoes the asset group AG1.
\<close>

lemma example_do:
  "Client_Do (example_env script) req n =
     (if n < length script then script ! n else Inl ''connection refused'', Suc n)"
  by (simp add: example_env_def)

lemma example_update_request:
  "\<exists>req. applicationUpdateRequest (example_env script) d client = Inr req"
  by (simp add: applicationUpdateRequest_def NewRequest_def example_env_def example_marshal_def Let_def)

lemma example_echo:
  "read_echoes_asset_group
     (example_env [respond 200 ''200 OK'' '''', respond 200 ''200 OK'' ''{Items:[remote]}''])
     app_stored example_client (Suc 0)"
  by (simp add: read_echoes_asset_group_def applicationReadRequest_def NewRequest_def Let_def
      example_env_def respond_def example_unmarshal_apps_def app_remote_def app_stored_def d_Get_def)

theorem application_update_outcomes_witness:
  "applicationUpdatePayload app_stored ''AssetGroupId'' = None
   \<and> dom (applicationUpdatePayload app_stored) = {''Name'', ''Description'', ''BusinessImpact''}
   \<and> resourceAppScanApplicationUpdate (example_env [respond 403 ''403 Forbidden'' ''''])
         app_stored example_client 0 =
       ((Some (Errorf ''failed to update application, status: 403 Forbidden''), app_stored), 1)
   \<and> resourceAppScanApplicationUpdate
         (example_env [respond 200 ''200 OK'' '''', respond 200 ''200 OK'' ''{Items:[remote]}''])
         app_stored example_client 0 =
       resourceAppScanApplicationRead
         (example_env [respond 200 ''200 OK'' '''', respond 200 ''200 OK'' ''{Items:[remote]}''])
         app_stored example_client 1
   \<and> d_Get (snd (fst (resourceAppScanApplicationUpdate
         (example_env [respond 200 ''200 OK'' '''', respond 200 ''200 OK'' ''{Items:[remote]}''])
         app_stored example_client 0))) ''asset_group_id'' = ''AG1''"
proof -
  let ?bad = "example_env [respond 403 ''403 Forbidden'' '''']"
  let ?good = "example_env [respond 200 ''200 OK'' '''', respond 200 ''200 OK'' ''{Items:[remote]}'']"
  obtain r1 where r1: "applicationUpdateRequest ?bad app_stored example_client = Inr r1"
    using example_update_request by blast
  obtain r2 where r2: "applicationUpdateRequest ?good app_stored example_client = Inr r2"
    using example_update_request by blast
  have do1: "Client_Do ?bad r1 0 =
      (Inr \<lparr>StatusCode = 403, Status = ''403 Forbidden'', Body = Inr ''''\<rparr>, Suc 0)"
    by (rule example_do_first)
  have do2: "Client_Do ?good r2 0 =
      (Inr \<lparr>StatusCode = 200, Status = ''200 OK'', Body = Inr ''''\<rparr>, Suc 0)"
    by (rule example_do_first)
  note bad = application_update_outcomes [of app_stored ?bad example_client 0]
  note good = application_update_outcomes [of app_stored ?good example_client 0]
  have c1: "applicationUpdatePayload app_stored ''AssetGroupId'' = None"
    using good by blast
  have c2: "dom (applicationUpdatePayload app_stored) = {''Name'', ''Description'', ''BusinessImpact''}"
    using good by (simp add: app_stored_def d_Get_def)
  have c3: "resourceAppScanApplicationUpdate ?bad app_stored example_client 0 =
       ((Some (Errorf ''failed to update application, status: 403 Forbidden''), app_stored), 1)"
    using bad r1 do1 by simp
  have c4: "resourceAppScanApplicationUpdate ?good app_stored example_client 0 =
       resourceAppScanApplicationRead ?good app_stored example_client 1"
    using good r2 do2 by simp
  have echo: "\<forall>req resp w1. applicationUpdateRequest ?good app_stored example_client = Inr req
           \<and> Client_Do ?good req 0 = (Inr resp, w1) \<and> StatusCode resp = 200
         \<longrightarrow> read_echoes_asset_group ?good app_stored example_client w1"
  proof (intro allI impI)
    fix req resp w1
    assume "applicationUpdateRequest ?good app_stored example_client = Inr req
           \<and> Client_Do ?good req 0 = (Inr resp, w1) \<and> StatusCode resp = 200"
    then have "w1 = Suc 0" by (simp add: example_do)
    then show "read_echoes_asset_group ?good app_stored example_client w1"
      using example_echo by simp
  qed
  have c5: "d_Get (snd (fst (resourceAppScanApplicationUpdate ?good app_stored example_client 0)))
      ''asset_group_id'' = ''AG1''"
    using good echo by (simp add: app_stored_def d_Get_def)
  from c1 c2 c3 c4 c5 show ?thesis by blast
qed

section \<open>Application: Create\<close>

lemma create_payload_dom:
  "dom (applicationCreatePayload d) =
     {''Name'', ''Description'', ''AssetGroupId'', ''BusinessImpact''}
       \<union> (if d_Get d ''business_unit_id'' \<noteq> '''' then {''BusinessUnitId''} else {})"
  by (auto simp add: applicationCreatePayload_def d_GetOk_def Let_def split: if_splits)

lemma create_payload_values:
  "applicationCreatePayload d ''Name'' = Some (d_Get d ''name'')"
  "applicationCreatePayload d ''Description'' = Some (d_Get d ''description'')"
  "applicationCreatePayload d ''AssetGroupId'' = Some (d_Get d ''asset_group_id'')"
  "applicationCreatePayload d ''BusinessImpact'' = Some (d_Get d ''business_impact'')"
  "applicationCreatePayload d ''BusinessUnitId'' =
     (if d_Get d ''business_unit_id'' \<noteq> '''' then Some (d_Get d ''business_unit_id'') else None)"
  by (simp_all add: applicationCreatePayload_def d_GetOk_def Let_def)

lemma business_impact_default:
  "cfg ''business_impact'' = None \<Longrightarrow>
     d_Get (from_config (SchemaMap resourceAppScanApplication) cfg) ''business_impact'' = ''Unspecified''"
  by (simp add: from_config_def d_Get_def resourceAppScanApplication_def schema0_def)

lemma create_request_shape:
  "applicationCreateRequest env d client = Inr req \<Longrightarrow>
     Method req = ''POST'' \<and> URL req = ApiEndpoint client @ ''/api/v4/Apps''
     \<and> (\<exists>body. RequestBody req = Some body \<and> Marshal env (applicationCreatePayload d) = Inr body)"
  by (auto simp add: applicationCreateRequest_def NewRequest_def req_Header_Set_def Let_def
      split: sum.splits option.splits)

lemma string_assert_field:
  "string_assert x = (case string_field x of Some s \<Rightarrow> (s, True) | None \<Rightarrow> ('''', False))"
  by (cases x rule: string_field.cases) simp_all

lemma create_status:
  assumes "applicationCreateRequest env d client = Inr req"
      and "Client_Do env req w = (Inr resp, w1)"
  shows "StatusCode resp \<noteq> 200 \<and> StatusCode resp \<noteq> 201 \<Longrightarrow>
           resourceAppScanApplicationCreate env d client w =
             ((Some (Errorf (''failed to create application, status: '' @ Status resp)), d), w1)"
    and "(StatusCode resp = 200 \<or> StatusCode resp = 201) \<and> Body resp = Inr b
           \<and> Unmarshal_map env b = Inr result \<Longrightarrow>
         resourceAppScanApplicationCreate env d client w =
           (case string_field (result ''Id'') of
              None \<Rightarrow> ((Some (Errorf ''failed to retrieve application ID from API response''), d), w1)
            | Some id' \<Rightarrow>
                if id' = '''' then
                  ((Some (Errorf ''failed to retrieve application ID from API response''), d), w1)
                else resourceAppScanApplicationRead env (d\<lparr>rd_id := id'\<rparr>) client w1)"
  using assms
  by (auto simp add: resourceAppScanApplicationCreate_def string_assert_field d_SetId_def
      split: option.splits)

lemma create_success_status:
  "resourceAppScanApplicationCreate env d client w = ((None, d'), w') \<Longrightarrow>
     \<exists>req resp w1. applicationCreateRequest env d client = Inr req
        \<and> Client_Do env req w = (Inr resp, w1)
        \<and> (StatusCode resp = 200 \<or> StatusCode resp = 201)"
  by (auto simp add: resourceAppScanApplicationCreate_def split: sum.splits prod.splits if_splits)

text \<open>
  Claim C2. The payload of Create holds Name, Description, AssetGroupId and
  BusinessImpact, the last always (it reads ``Unspecified'' when the configuration omits
  business\_impact), and holds BusinessUnitId exactly when
  \<^verbatim>\<open>d.GetOk("business_unit_id")\<close> is ok (the attribute is not the empty string); it goes
  by POST to \<^verbatim>\<open>{endpoint}/api/v4/Apps\<close>. Once the server has answered: a status other
  than 200 and 201 gives the error ``failed to create application, status: ...''; a
  decoded body whose Id is missing, not a string or empty gives the error ``failed to
  retrieve application ID from API response''; in both cases the local state, the id
  included, is unchanged. Otherwise Create is the Read that starts from the local state
  with the id set to the returned Id. Create returns without error only if the server
  answered the POST with 200 or 201.
\<close>

theorem application_create_outcomes:
  "dom (applicationCreatePayload d) =
     {''Name'', ''Description'', ''AssetGroupId'', ''BusinessImpact''}
       \<union> (if d_Get d ''business_unit_id'' \<noteq> '''' then {''BusinessUnitId''} else {})
   \<and> applicationCreatePayload d ''Name'' = Some (d_Get d ''name'')
   \<and> applicationCreatePayload d ''Description'' = Some (d_Get d ''description'')
   \<and> applicationCreatePayload d ''AssetGroupId'' = Some (d_Get d ''asset_group_id'')
   \<and> applicationCreatePayload d ''BusinessImpact'' = Some (d_Get d ''business_impact'')
   \<and> applicationCreatePayload d ''BusinessUnitId'' =
       (if d_Get d ''business_unit_id'' \<noteq> '''' then Some (d_Get d ''business_unit_id'') else None)
   \<and> (\<forall>cfg. cfg ''business_impact'' = None \<longrightarrow>
         applicationCreatePayload (from_config (SchemaMap resourceAppScanApplication) cfg)
           ''BusinessImpact'' = Some ''Unspecified'')
   \<and> (\<forall>req. applicationCreateRequest env d client = Inr req \<longrightarrow>
         Method req = ''POST'' \<and> URL req = ApiEndpoint client @ ''/api/v4/Apps''
         \<and> (\<exists>body. RequestBody req = Some body
                \<and> Marshal env (applicationCreatePayload d) = Inr body))
   \<and> (\<forall>req resp w1. applicationCreateRequest env d client = Inr req
           \<and> Client_Do env req w = (Inr resp, w1) \<longrightarrow>
         (StatusCode resp \<noteq> 200 \<and> StatusCode resp \<noteq> 201 \<longrightarrow>
            resourceAppScanApplicationCreate env d client w =
              ((Some (Errorf (''failed to create application, status: '' @ Status resp)), d), w1))
       \<and> (\<forall>b result. (StatusCode resp = 200 \<or> StatusCode resp = 201) \<and> Body resp = Inr b
               \<and> Unmarshal_map env b = Inr result \<longrightarrow>
            resourceAppScanApplicationCreate env d client w =
              (case string_field (result ''Id'') of
                 None \<Rightarrow>
                   ((Some (Errorf ''failed to retrieve application ID from API response''), d), w1)
               | Some id' \<Rightarrow>
                   if id' = '''' then
                     ((Some (Errorf ''failed to retrieve application ID from API response''), d), w1)
                   else resourceAppScanApplicationRead env (d\<lparr>rd_id := id'\<rparr>) client w1)))
   \<and> (\<forall>d' w'. resourceAppScanApplicationCreate env d client w = ((None, d'), w') \<longrightarrow>
         (\<exists>req resp w1. applicationCreateRequest env d client = Inr req
            \<and> Client_Do env req w = (Inr resp, w1)
            \<and> (StatusCode resp = 200 \<or> StatusCode resp = 201)))"
proof (intro conjI)
  show "dom (applicationCreatePayload d) =
     {''Name'', ''Description'', ''AssetGroupId'', ''BusinessImpact''}
       \<union> (if d_Get d ''business_unit_id'' \<noteq> '''' then {''BusinessUnitId''} else {})"
    by (rule create_payload_dom)
  show "applicationCreatePayload d ''Name'' = Some (d_Get d ''name'')"
    and "applicationCreatePayload d ''Description'' = Some (d_Get d ''description'')"
    and "applicationCreatePayload d ''AssetGroupId'' = Some (d_Get d ''asset_group_id'')"
    and "applicationCreatePayload d ''BusinessImpact'' = Some (d_Get d ''business_impact'')"
    and "applicationCreatePayload d ''BusinessUnitId'' =
       (if d_Get d ''business_unit_id'' \<noteq> '''' then Some (d_Get d ''business_unit_id'') else None)"
    by (rule create_payload_values)+
  show "\<forall>cfg. cfg ''business_impact'' = None \<longrightarrow>
         applicationCreatePayload (from_config (SchemaMap resourceAppScanApplication) cfg)
           ''BusinessImpact'' = Some ''Unspecified''"
    by (simp add: create_payload_values business_impact_default)
  show "\<forall>req. applicationCreateRequest env d client = Inr req \<longrightarrow>
         Method req = ''POST'' \<and> URL req = ApiEndpoint client @ ''/api/v4/Apps''
         \<and> (\<exists>body. RequestBody req = Some body
                \<and> Marshal env (applicationCreatePayload d) = Inr body)"
    by (intro allI impI) (rule create_request_shape)
  show "\<forall>req resp w1. applicationCreateRequest env d client = Inr req
           \<and> Client_Do env req w = (Inr resp, w1) \<longrightarrow>
         (StatusCode resp \<noteq> 200 \<and> StatusCode resp \<noteq> 201 \<longrightarrow>
            resourceAppScanApplicationCreate env d client w =
              ((Some (Errorf (''failed to create application, status: '' @ Status resp)), d), w1))
       \<and> (\<forall>b result. (StatusCode resp = 200 \<or> StatusCode resp = 201) \<and> Body resp = Inr b
               \<and> Unmarshal_map env b = Inr result \<longrightarrow>
            resourceAppScanApplicationCreate env d client w =
              (case string_field (result ''Id'') of
                 None \<Rightarrow>
                   ((Some (Errorf ''failed to retrieve application ID from API response''), d), w1)
               | Some id' \<Rightarrow>
                   if id' = '''' then
                     ((Some (Errorf ''failed to retrieve application ID from API response''), d), w1)
                   else resourceAppScanApplicationRead env (d\<lparr>rd_id := id'\<rparr>) client w1))"
  proof (intro allI impI conjI)
    fix req resp w1
    assume h: "applicationCreateRequest env d client = Inr req
           \<and> Client_Do env req w = (Inr resp, w1)"
    assume "StatusCode resp \<noteq> 200 \<and> StatusCode resp \<noteq> 201"
    with h show "resourceAppScanApplicationCreate env d client w =
              ((Some (Errorf (''failed to create application, status: '' @ Status resp)), d), w1)"
      using create_status(1) [of env d client req w resp w1] by simp
  next
    fix req resp w1 b result
    assume h: "applicationCreateRequest env d client = Inr req
           \<and> Client_Do env req w = (Inr resp, w1)"
    assume "(StatusCode resp = 200 \<or> StatusCode resp = 201) \<and> Body resp = Inr b
               \<and> Unmarshal_map env b = Inr result"
    with h show "resourceAppScanApplicationCreate env d client w =
              (case string_field (result ''Id'') of
                 None \<Rightarrow>
                   ((Some (Errorf ''failed to retrieve application ID from API response''), d), w1)
               | Some id' \<Rightarrow>
                   if id' = '''' then
                     ((Some (Errorf ''failed to retrieve application ID from API response''), d), w1)
                   else resourceAppScanApplicationRead env (d\<lparr>rd_id := id'\<rparr>) client w1)"
      using create_status(2) [of env d client req w resp w1 b result] by simp
  qed
  show "\<forall>d' w'. resourceAppScanApplicationCreate env d client w = ((None, d'), w') \<longrightarrow>
         (\<exists>req resp w1. applicationCreateRequest env d client = Inr req
            \<and> Client_Do env req w = (Inr resp, w1)
            \<and> (StatusCode resp = 200 \<or> StatusCode resp = 201))"
    by (intro allI impI) (rule create_success_status)
qed


text \<open>
  Create on a configuration that omits the business unit and the impact: a refused POST,
  an answer whose Id is a number, and an answer with Id 123 followed by a Read.
\<close>

lemma example_create_request:
  "\<exists>req. applicationCreateRequest (example_env script) d client = Inr req"
  by (simp add: applicationCreateRequest_def NewRequest_def example_env_def example_marshal_def Let_def)

lemma example_unmarshal_map [simp]:
  "Unmarshal_map (example_env script) = example_unmarshal_map"
  by (simp add: example_env_def)

lemma example_new_request [simp]:
  "NewRequest_error (example_env script) method url = None"
  by (simp add: example_env_def)

lemma example_read_after_create:
  "resourceAppScanApplicationRead
     (example_env [respond 201 ''201 Created'' ''{Id:123}'', respond 200 ''200 OK'' ''{Items:[remote]}''])
     (app_config\<lparr>rd_id := ''123''\<rparr>) example_client (Suc 0) =
   ((None, applicationReadFields (app_config\<lparr>rd_id := ''123''\<rparr>) app_remote), Suc (Suc 0))"
  by (simp add: resourceAppScanApplicationRead_def applicationReadRequest_def NewRequest_def Let_def
      example_do respond_def example_unmarshal_apps_def)

lemma app_config_values:
  "d_Get app_config ''name'' = ''App1''"
  "d_Get app_config ''asset_group_id'' = ''AG1''"
  "d_Get app_config ''business_unit_id'' = ''''"
  "d_Get app_config ''business_impact'' = ''Unspecified''"
  by (simp_all add: app_config_def from_config_def d_Get_def resourceAppScanApplication_def
      schema0_def)

theorem application_create_outcomes_witness:
  "applicationCreatePayload app_config ''Name'' = Some ''App1''
   \<and> applicationCreatePayload app_config ''AssetGroupId'' = Some ''AG1''
   \<and> applicationCreatePayload app_config ''BusinessImpact'' = Some ''Unspecified''
   \<and> applicationCreatePayload app_config ''BusinessUnitId'' = None
   \<and> resourceAppScanApplicationCreate (example_env [respond 400 ''400 Bad Request'' ''''])
         app_config example_client 0 =
       ((Some (Errorf ''failed to create application, status: 400 Bad Request''), app_config), 1)
   \<and> resourceAppScanApplicationCreate (example_env [respond 200 ''200 OK'' ''{Id:7}''])
         app_config example_client 0 =
       ((Some (Errorf ''failed to retrieve application ID from API response''), app_config), 1)
   \<and> resourceAppScanApplicationCreate
         (example_env [respond 201 ''201 Created'' ''{Id:123}'',
                       respond 200 ''200 OK'' ''{Items:[remote]}''])
         app_config example_client 0 =
       ((None, applicationReadFields (app_config\<lparr>rd_id := ''123''\<rparr>) app_remote), 2)
   \<and> rd_id (applicationReadFields (app_config\<lparr>rd_id := ''123''\<rparr>) app_remote) = ''123''"
proof -
  let ?bad = "example_env [respond 400 ''400 Bad Request'' '''']"
  let ?noid = "example_env [respond 200 ''200 OK'' ''{Id:7}'']"
  let ?good = "example_env [respond 201 ''201 Created'' ''{Id:123}'',
                            respond 200 ''200 OK'' ''{Items:[remote]}'']"
  obtain r1 where r1: "applicationCreateRequest ?bad app_config example_client = Inr r1"
    using example_create_request by blast
  obtain r2 where r2: "applicationCreateRequest ?noid app_config example_client = Inr r2"
    using example_create_request by blast
  obtain r3 where r3: "applicationCreateRequest ?good app_config example_client = Inr r3"
    using example_create_request by blast
  have do1: "Client_Do ?bad r1 0 =
      (Inr \<lparr>StatusCode = 400, Status = ''400 Bad Request'', Body = Inr ''''\<rparr>, Suc 0)"
    by (rule example_do_first)
  have do2: "Client_Do ?noid r2 0 =
      (Inr \<lparr>StatusCode = 200, Status = ''200 OK'', Body = Inr ''{Id:7}''\<rparr>, Suc 0)"
    by (rule example_do_first)
  have do3: "Client_Do ?good r3 0 =
      (Inr \<lparr>StatusCode = 201, Status = ''201 Created'', Body = Inr ''{Id:123}''\<rparr>, Suc 0)"
    by (rule example_do_first)
  note bad = application_create_outcomes [of app_config ?bad example_client 0]
  note noid = application_create_outcomes [of app_config ?noid example_client 0]
  note good = application_create_outcomes [of app_config ?good example_client 0]
  have c1: "applicationCreatePayload app_config ''Name'' = Some ''App1''
      \<and> applicationCreatePayload app_config ''AssetGroupId'' = Some ''AG1''
      \<and> applicationCreatePayload app_config ''BusinessUnitId'' = None"
    using good by (simp add: app_config_values)
  have c2: "applicationCreatePayload app_config ''BusinessImpact'' = Some ''Unspecified''"
    using good by (simp add: app_config_values)
  have c3: "resourceAppScanApplicationCreate ?bad app_config example_client 0 =
       ((Some (Errorf ''failed to create application, status: 400 Bad Request''), app_config), 1)"
    using bad r1 do1 by simp
  have c4: "resourceAppScanApplicationCreate ?noid app_config example_client 0 =
       ((Some (Errorf ''failed to retrieve application ID from API response''), app_config), 1)"
    using noid r2 do2 by (simp add: example_unmarshal_map_def)
  have c5: "resourceAppScanApplicationCreate ?good app_config example_client 0 =
       ((None, applicationReadFields (app_config\<lparr>rd_id := ''123''\<rparr>) app_remote), 2)"
    using good r3 do3 by (simp add: example_unmarshal_map_def example_read_after_create)
  have c6: "rd_id (applicationReadFields (app_config\<lparr>rd_id := ''123''\<rparr>) app_remote) = ''123''"
    by (simp add: applicationReadFields_id)
  from c1 c2 c3 c4 c5 c6 show ?thesis by blast
qed

section \<open>Application: errors and the local state\<close>

lemma update_error_unchanged:
  "resourceAppScanApplicationUpdate env d client w = ((Some e, d'), w') \<Longrightarrow> d' = d"
  by (auto simp add: resourceAppScanApplicationUpdate_def
      split: sum.splits prod.splits if_splits dest: read_error_unchanged)

lemma delete_error_unchanged:
  "resourceAppScanApplicationDelete env d client w = ((Some e, d'), w') \<Longrightarrow> d' = d"
  by (auto simp add: resourceAppScanApplicationDelete_def split: sum.splits prod.splits if_splits)

lemma string_assert_ok:
  "string_assert x = (v, True) \<Longrightarrow> x = Some (JString v)"
  by (cases x rule: string_assert.cases) simp_all

lemma create_error_cases:
  assumes "resourceAppScanApplicationCreate env d client w = ((Some e, d'), w')"
  shows "d' = d
     \<or> (\<exists>req resp w1 b result id'. applicationCreateRequest env d client = Inr req
           \<and> Client_Do env req w = (Inr resp, w1)
           \<and> (StatusCode resp = 200 \<or> StatusCode resp = 201)
           \<and> Body resp = Inr b \<and> Unmarshal_map env b = Inr result
           \<and> result ''Id'' = Some (JString id') \<and> id' \<noteq> ''''
           \<and> resourceAppScanApplicationRead env (d\<lparr>rd_id := id'\<rparr>) client w1 = ((Some e, d'), w')
           \<and> d' = d\<lparr>rd_id := id'\<rparr>)"
proof (cases "applicationCreateRequest env d client")
  case (Inl err)
  with assms show ?thesis by (simp add: resourceAppScanApplicationCreate_def)
next
  case (Inr req)
  obtain r w1 where do: "Client_Do env req w = (r, w1)" by (metis surj_pair)
  show ?thesis
  proof (cases r)
    case (Inl msg)
    with assms Inr do show ?thesis by (simp add: resourceAppScanApplicationCreate_def)
  next
    case resp: (Inr resp)
    show ?thesis
    proof (cases "StatusCode resp \<noteq> 201 \<and> StatusCode resp \<noteq> 200")
      case True
      with assms Inr do resp show ?thesis by (simp add: resourceAppScanApplicationCreate_def)
    next
      case status: False
      show ?thesis
      proof (cases "Body resp")
        case (Inl msg)
        with assms Inr do resp status show ?thesis
          by (simp add: resourceAppScanApplicationCreate_def)
      next
        case body: (Inr b)
        show ?thesis
        proof (cases "Unmarshal_map env b")
          case (Inl msg)
          with assms Inr do resp status body show ?thesis
            by (simp add: resourceAppScanApplicationCreate_def)
        next
          case result: (Inr result)
          obtain id' ok where sa: "string_assert (result ''Id'') = (id', ok)" by (metis surj_pair)
          show ?thesis
          proof (cases "\<not> ok \<or> id' = ''''")
            case True
            with assms Inr do resp status body result sa show ?thesis
              by (auto simp add: resourceAppScanApplicationCreate_def)
          next
            case False
            then have ok: "ok" and ne: "id' \<noteq> ''''" by simp_all
            from sa ok have idf: "result ''Id'' = Some (JString id')"
              by (simp add: string_assert_ok)
            from assms Inr do resp status body result sa ok ne
            have rd: "resourceAppScanApplicationRead env (d\<lparr>rd_id := id'\<rparr>) client w1 = ((Some e, d'), w')"
              by (simp add: resourceAppScanApplicationCreate_def d_SetId_def)
            from read_error_unchanged [OF rd] have "d' = d\<lparr>rd_id := id'\<rparr>" .
            with Inr do resp status body result idf ne rd show ?thesis by blast
          qed
        qed
      qed
    qed
  qed
qed

lemma create_failed_read_keeps_id:
  assumes "applicationCreateRequest env d client = Inr req"
      and "Client_Do env req w = (Inr resp, w1)"
      and "StatusCode resp = 200 \<or> StatusCode resp = 201"
      and "Body resp = Inr b" and "Unmarshal_map env b = Inr result"
      and "result ''Id'' = Some (JString id')" and "id' \<noteq> ''''"
      and rd: "resourceAppScanApplicationRead env (d\<lparr>rd_id := id'\<rparr>) client w1 = ((Some e, d'), w')"
  shows "resourceAppScanApplicationCreate env d client w = ((Some e, d\<lparr>rd_id := id'\<rparr>), w')"
proof -
  from assms(1-7) have "resourceAppScanApplicationCreate env d client w =
      resourceAppScanApplicationRead env (d\<lparr>rd_id := id'\<rparr>) client w1"
    by (auto simp add: resourceAppScanApplicationCreate_def d_SetId_def)
  moreover from read_error_unchanged [OF rd] have "d' = d\<lparr>rd_id := id'\<rparr>" .
  ultimately show ?thesis using rd by simp
qed

text \<open>
  Claim C8, as the code has it. Whenever Read, Update or Delete returns an error, the
  local state is what it was when the operation started. Whenever Create returns an
  error, the local state is what it was, except in one case: the server answered the
  POST with 200 or 201 and a non-empty string Id, and the Read that follows failed. In
  that case, always, Create returns the error of that Read and the local state is the
  starting one with the id set to the returned Id.
\<close>

theorem application_errors_and_state:
  "(\<forall>e d' w'. resourceAppScanApplicationRead env d client w = ((Some e, d'), w') \<longrightarrow> d' = d)
   \<and> (\<forall>e d' w'. resourceAppScanApplicationUpdate env d client w = ((Some e, d'), w') \<longrightarrow> d' = d)
   \<and> (\<forall>e d' w'. resourceAppScanApplicationDelete env d client w = ((Some e, d'), w') \<longrightarrow> d' = d)
   \<and> (\<forall>e d' w'. resourceAppScanApplicationCreate env d client w = ((Some e, d'), w') \<longrightarrow>
         d' = d
         \<or> (\<exists>req resp w1 b result id'. applicationCreateRequest env d client = Inr req
               \<and> Client_Do env req w = (Inr resp, w1)
               \<and> (StatusCode resp = 200 \<or> StatusCode resp = 201)
               \<and> Body resp = Inr b \<and> Unmarshal_map env b = Inr result
               \<and> result ''Id'' = Some (JString id') \<and> id' \<noteq> ''''
               \<and> resourceAppScanApplicationRead env (d\<lparr>rd_id := id'\<rparr>) client w1 =
                   ((Some e, d'), w')
               \<and> d' = d\<lparr>rd_id := id'\<rparr>))
   \<and> (\<forall>req resp w1 b result id' e d' w'.
         applicationCreateRequest env d client = Inr req
         \<and> Client_Do env req w = (Inr resp, w1)
         \<and> (StatusCode resp = 200 \<or> StatusCode resp = 201)
         \<and> Body resp = Inr b \<and> Unmarshal_map env b = Inr result
         \<and> result ''Id'' = Some (JString id') \<and> id' \<noteq> ''''
         \<and> resourceAppScanApplicationRead env (d\<lparr>rd_id := id'\<rparr>) client w1 =
             ((Some e, d'), w')
       \<longrightarrow> resourceAppScanApplicationCreate env d client w =
             ((Some e, d\<lparr>rd_id := id'\<rparr>), w')
           \<and> rd_id (d\<lparr>rd_id := id'\<rparr>) = id')"
proof (intro conjI allI impI)
  fix e d' w'
  assume "resourceAppScanApplicationRead env d client w = ((Some e, d'), w')"
  then show "d' = d" by (rule read_error_unchanged)
next
  fix e d' w'
  assume "resourceAppScanApplicationUpdate env d client w = ((Some e, d'), w')"
  then show "d' = d" by (rule update_error_unchanged)
next
  fix e d' w'
  assume "resourceAppScanApplicationDelete env d client w = ((Some e, d'), w')"
  then show "d' = d" by (rule delete_error_unchanged)
next
  fix e d' w'
  assume "resourceAppScanApplicationCreate env d client w = ((Some e, d'), w')"
  then show "d' = d
         \<or> (\<exists>req resp w1 b result id'. applicationCreateRequest env d client = Inr req
               \<and> Client_Do env req w = (Inr resp, w1)
               \<and> (StatusCode resp = 200 \<or> StatusCode resp = 201)
               \<and> Body resp = Inr b \<and> Unmarshal_map env b = Inr result
               \<and> result ''Id'' = Some (JString id') \<and> id' \<noteq> ''''
               \<and> resourceAppScanApplicationRead env (d\<lparr>rd_id := id'\<rparr>) client w1 =
                   ((Some e, d'), w')
               \<and> d' = d\<lparr>rd_id := id'\<rparr>)"
    by (rule create_error_cases)
next
  fix req resp w1 b result id' e d' w'
  assume "applicationCreateRequest env d client = Inr req
         \<and> Client_Do env req w = (Inr resp, w1)
         \<and> (StatusCode resp = 200 \<or> StatusCode resp = 201)
         \<and> Body resp = Inr b \<and> Unmarshal_map env b = Inr result
         \<and> result ''Id'' = Some (JString id') \<and> id' \<noteq> ''''
         \<and> resourceAppScanApplicationRead env (d\<lparr>rd_id := id'\<rparr>) client w1 =
             ((Some e, d'), w')"
  then show "resourceAppScanApplicationCreate env d client w =
             ((Some e, d\<lparr>rd_id := id'\<rparr>), w')"
    by (elim conjE) (rule create_failed_read_keeps_id)
next
  fix id'
  show "rd_id (d\<lparr>rd_id := id'\<rparr>) = id'" by simp
qed

text \<open>
  The claim as stated fails: the POST answers 201 with Id 123, the Read that follows gets
  a 500. Create returns the Read's error, and the local id, empty before, is 123.
\<close>

theorem create_keeps_id_when_read_fails:
  "resourceAppScanApplicationCreate
     (example_env [respond 201 ''201 Created'' ''{Id:123}'',
                   respond 500 ''500 Internal Server Error'' ''''])
     app_config example_client 0 =
   ((Some (Errorf ''failed to read application, status: 500 Internal Server Error''),
     app_config\<lparr>rd_id := ''123''\<rparr>), 2)
   \<and> rd_id app_config = ''''
   \<and> rd_id (app_config\<lparr>rd_id := ''123''\<rparr>) = ''123''"
  by (simp add: resourceAppScanApplicationCreate_def applicationCreateRequest_def
      resourceAppScanApplicationRead_def applicationReadRequest_def NewRequest_def Let_def
      example_do respond_def example_unmarshal_map_def example_marshal_def example_env_def
      d_SetId_def app_config_def from_config_def)


text \<open>
  The four operations, each failing: the state after a failed Read, Update and Delete is
  the stored application; the failed Create is the one whose POST answers 201 with Id
  123 and whose Read gets a 500, and it leaves the configured attributes with the id 123.
\<close>

lemma example_create_then_failed_read:
  "fst (fst (resourceAppScanApplicationCreate
     (example_env [respond 201 ''201 Created'' ''{Id:123}'',
                   respond 500 ''500 Internal Server Error'' ''''])
     app_config example_client 0)) =
   Some (Errorf ''failed to read application, status: 500 Internal Server Error'')"
  by (simp add: resourceAppScanApplicationCreate_def applicationCreateRequest_def
      resourceAppScanApplicationRead_def applicationReadRequest_def NewRequest_def Let_def
      example_do respond_def example_unmarshal_map_def example_marshal_def example_env_def
      d_SetId_def)

lemma example_failed_read_after_create:
  "resourceAppScanApplicationRead
     (example_env [respond 201 ''201 Created'' ''{Id:123}'',
                   respond 500 ''500 Internal Server Error'' ''''])
     (app_config\<lparr>rd_id := ''123''\<rparr>) example_client (Suc 0) =
   ((Some (Errorf ''failed to read application, status: 500 Internal Server Error''),
     app_config\<lparr>rd_id := ''123''\<rparr>), Suc (Suc 0))"
  by (simp add: resourceAppScanApplicationRead_def applicationReadRequest_def NewRequest_def Let_def
      example_do respond_def)

lemma example_failed_read:
  "fst (fst (resourceAppScanApplicationRead (example_env [respond 500 ''500 Internal Server Error'' ''''])
     app_stored example_client 0)) =
   Some (Errorf ''failed to read application, status: 500 Internal Server Error'')"
  by (simp add: resourceAppScanApplicationRead_def applicationReadRequest_def NewRequest_def Let_def
      example_do respond_def)

lemma example_failed_update:
  "fst (fst (resourceAppScanApplicationUpdate (example_env [respond 403 ''403 Forbidden'' ''''])
     app_stored example_client 0)) =
   Some (Errorf ''failed to update application, status: 403 Forbidden'')"
  by (simp add: resourceAppScanApplicationUpdate_def applicationUpdateRequest_def NewRequest_def
      Let_def example_do respond_def example_env_def example_marshal_def)

lemma example_failed_delete:
  "fst (fst (resourceAppScanApplicationDelete (example_env [respond 500 ''500 Internal Server Error'' ''''])
     app_stored example_client 0)) =
   Some (Errorf ''failed to delete application, status: 500 Internal Server Error'')"
  by (simp add: resourceAppScanApplicationDelete_def applicationDeleteRequest_def NewRequest_def
      Let_def example_do respond_def)

lemma result_with_error:
  "fst (fst r) = Some e \<Longrightarrow> r = ((Some e, snd (fst r)), snd r)"
  by (metis prod.collapse)

theorem application_errors_and_state_witness:
  "snd (fst (resourceAppScanApplicationRead (example_env [respond 500 ''500 Internal Server Error'' ''''])
       app_stored example_client 0)) = app_stored
   \<and> snd (fst (resourceAppScanApplicationUpdate (example_env [respond 403 ''403 Forbidden'' ''''])
       app_stored example_client 0)) = app_stored
   \<and> snd (fst (resourceAppScanApplicationDelete (example_env [respond 500 ''500 Internal Server Error'' ''''])
       app_stored example_client 0)) = app_stored
   \<and> rd_attrs (snd (fst (resourceAppScanApplicationCreate
         (example_env [respond 201 ''201 Created'' ''{Id:123}'',
                       respond 500 ''500 Internal Server Error'' ''''])
         app_config example_client 0))) = rd_attrs app_config
   \<and> snd (fst (resourceAppScanApplicationCreate
         (example_env [respond 201 ''201 Created'' ''{Id:123}'',
                       respond 500 ''500 Internal Server Error'' ''''])
         app_config example_client 0)) = app_config\<lparr>rd_id := ''123''\<rparr>
   \<and> fst (fst (resourceAppScanApplicationCreate
         (example_env [respond 201 ''201 Created'' ''{Id:123}'',
                       respond 500 ''500 Internal Server Error'' ''''])
         app_config example_client 0)) =
       Some (Errorf ''failed to read application, status: 500 Internal Server Error'')"
proof -
  let ?e500 = "example_env [respond 500 ''500 Internal Server Error'' '''']"
  let ?e403 = "example_env [respond 403 ''403 Forbidden'' '''']"
  let ?part = "example_env [respond 201 ''201 Created'' ''{Id:123}'',
                            respond 500 ''500 Internal Server Error'' '''']"
  let ?resp = "\<lparr>StatusCode = 201, Status = ''201 Created'', Body = Inr ''{Id:123}''\<rparr>"
  note rd = application_errors_and_state [of ?e500 app_stored example_client 0,
      THEN conjunct1, rule_format, OF result_with_error [OF example_failed_read]]
  note up = application_errors_and_state [of ?e403 app_stored example_client 0,
      THEN conjunct2, THEN conjunct1, rule_format, OF result_with_error [OF example_failed_update]]
  note de = application_errors_and_state [of ?e500 app_stored example_client 0,
      THEN conjunct2, THEN conjunct2, THEN conjunct1, rule_format,
      OF result_with_error [OF example_failed_delete]]
  note cr = application_errors_and_state [of ?part app_config example_client 0,
      THEN conjunct2, THEN conjunct2, THEN conjunct2, THEN conjunct1, rule_format,
      OF result_with_error [OF example_create_then_failed_read]]
  from cr have attrs: "rd_attrs (snd (fst (resourceAppScanApplicationCreate ?part app_config
      example_client 0))) = rd_attrs app_config"
    by auto
  obtain req where req: "applicationCreateRequest ?part app_config example_client = Inr req"
    using example_create_request by blast
  have h: "applicationCreateRequest ?part app_config example_client = Inr req
         \<and> Client_Do ?part req 0 = (Inr ?resp, Suc 0)
         \<and> (StatusCode ?resp = 200 \<or> StatusCode ?resp = 201)
         \<and> Body ?resp = Inr ''{Id:123}''
         \<and> Unmarshal_map ?part ''{Id:123}'' = Inr [''Id'' \<mapsto> JString ''123'']
         \<and> [''Id'' \<mapsto> JString ''123''] ''Id'' = Some (JString ''123'') \<and> ''123'' \<noteq> ''''
         \<and> resourceAppScanApplicationRead ?part (app_config\<lparr>rd_id := ''123''\<rparr>) example_client
               (Suc 0) =
             ((Some (Errorf ''failed to read application, status: 500 Internal Server Error''),
               app_config\<lparr>rd_id := ''123''\<rparr>), Suc (Suc 0))"
    using req
    by (simp add: example_do_first example_unmarshal_map_def example_failed_read_after_create)
  note kept = application_errors_and_state [of ?part app_config example_client 0,
      THEN conjunct2, THEN conjunct2, THEN conjunct2, THEN conjunct2, rule_format, OF h,
      THEN conjunct1]
  have state: "snd (fst (resourceAppScanApplicationCreate ?part app_config example_client 0)) =
      app_config\<lparr>rd_id := ''123''\<rparr>"
    by (simp add: kept)
  have err: "fst (fst (resourceAppScanApplicationCreate ?part app_config example_client 0)) =
      Some (Errorf ''failed to read application, status: 500 Internal Server Error'')"
    by (simp add: kept)
  from rd up de attrs state err show ?thesis by - (intro conjI; assumption)
qed

section \<open>Application: Read of several items\<close>

lemma applicationReadFields_ignores_Id:
  "applicationReadFields d (app(''Id'' := x)) = applicationReadFields d app"
  by (simp add: applicationReadFields_def Let_def set_if_string_def)

lemma read_many_items:
  assumes "applicationReadRequest env d client = Inr req"
      and "Client_Do env req w = (Inr resp, w')"
      and "StatusCode resp = 200" and "Body resp = Inr b"
      and "Unmarshal_apps env b = Inr items" and "items \<noteq> []"
  shows "resourceAppScanApplicationRead env d client w =
           ((None, applicationReadFields d (items ! 0)), w')"
  using assms by (simp add: resourceAppScanApplicationRead_def)

text \<open>
  Claim C10. When Read gets status 200 and a decoded \<^verbatim>\<open>Items\<close> with two or more
  elements, it returns no error, keeps the local id, and updates the five attributes
  from the first element as in C1; the other elements play no part: a Read whose
  answer holds only the first element gives the same error value and local state, and
  so does one whose element carries any other Id, or none. No branch compares the
  element's Id with the local id.
\<close>

theorem application_read_takes_first_item:
  assumes req: "applicationReadRequest env d client = Inr req"
      and do: "Client_Do env req w = (Inr resp, w')"
      and status: "StatusCode resp = 200"
      and body: "Body resp = Inr b"
      and items: "Unmarshal_apps env b = Inr (app # other # rest)"
  shows "(\<exists>d'. resourceAppScanApplicationRead env d client w = ((None, d'), w')
            \<and> rd_id d' = rd_id d
            \<and> updated_from app ''Name'' d ''name'' d'
            \<and> updated_from app ''Description'' d ''description'' d'
            \<and> updated_from app ''AssetGroupId'' d ''asset_group_id'' d'
            \<and> updated_from app ''BusinessUnitId'' d ''business_unit_id'' d'
            \<and> updated_from app ''BusinessImpact'' d ''business_impact'' d'
            \<and> (\<forall>k. k \<notin> {''name'', ''description'', ''asset_group_id'', ''business_unit_id'',
                         ''business_impact''} \<longrightarrow> rd_attrs d' k = rd_attrs d k))
       \<and> (\<forall>env2 req2 w2 resp2 w2' b2 x.
             applicationReadRequest env2 d client = Inr req2
             \<and> Client_Do env2 req2 w2 = (Inr resp2, w2')
             \<and> StatusCode resp2 = 200 \<and> Body resp2 = Inr b2
             \<and> Unmarshal_apps env2 b2 = Inr [app(''Id'' := x)]
           \<longrightarrow> fst (resourceAppScanApplicationRead (env2 :: 'w env) d client w2) =
               fst (resourceAppScanApplicationRead env d client w))"
proof (intro conjI allI impI)
  have r: "resourceAppScanApplicationRead env d client w = ((None, applicationReadFields d app), w')"
    using read_many_items [OF req do status body items] by simp
  show "\<exists>d'. resourceAppScanApplicationRead env d client w = ((None, d'), w')
            \<and> rd_id d' = rd_id d
            \<and> updated_from app ''Name'' d ''name'' d'
            \<and> updated_from app ''Description'' d ''description'' d'
            \<and> updated_from app ''AssetGroupId'' d ''asset_group_id'' d'
            \<and> updated_from app ''BusinessUnitId'' d ''business_unit_id'' d'
            \<and> updated_from app ''BusinessImpact'' d ''business_impact'' d'
            \<and> (\<forall>k. k \<notin> {''name'', ''description'', ''asset_group_id'', ''business_unit_id'',
                         ''business_impact''} \<longrightarrow> rd_attrs d' k = rd_attrs d k)"
    by (intro exI [where x = "applicationReadFields d app"])
       (simp add: r applicationReadFields_id applicationReadFields_updated
          applicationReadFields_frame)
  fix env2 :: "'w env" and req2 w2 resp2 w2' b2 x
  assume h: "applicationReadRequest env2 d client = Inr req2
             \<and> Client_Do env2 req2 w2 = (Inr resp2, w2')
             \<and> StatusCode resp2 = 200 \<and> Body resp2 = Inr b2
             \<and> Unmarshal_apps env2 b2 = Inr [app(''Id'' := x)]"
  then have "resourceAppScanApplicationRead env2 d client w2 =
      ((None, applicationReadFields d (app(''Id'' := x))), w2')"
    using read_many_items [of env2 d client req2 w2 resp2 w2' b2 "[app(''Id'' := x)]"] by simp
  with r show "fst (resourceAppScanApplicationRead env2 d client w2) =
               fst (resourceAppScanApplicationRead env d client w)"
    by (simp add: applicationReadFields_ignores_Id)
qed


text \<open>
  A stored application with id 123 reads two items, the first with Id 999: Read succeeds
  and takes the name and asset group of that first item, as it does when the answer
  holds that item alone.
\<close>

lemma app_other_Id: "app_other(''Id'' := Some (JString ''999'')) = app_other"
  by (rule ext) (simp add: app_other_def)

theorem application_read_takes_first_item_witness:
  "(\<exists>d'. resourceAppScanApplicationRead
            (example_env [respond 200 ''200 OK'' ''{Items:[other,remote]}''])
            app_stored example_client 0 = ((None, d'), 1)
       \<and> rd_id d' = ''123''
       \<and> rd_attrs d' ''name'' = Some ''Other''
       \<and> rd_attrs d' ''asset_group_id'' = Some ''AG2''
       \<and> rd_attrs d' ''business_impact'' = Some ''Unspecified'')
   \<and> app_other ''Id'' = Some (JString ''999'')
   \<and> fst (resourceAppScanApplicationRead (example_env [respond 200 ''200 OK'' ''{Items:[other]}''])
            app_stored example_client 0) =
     fst (resourceAppScanApplicationRead
            (example_env [respond 200 ''200 OK'' ''{Items:[other,remote]}''])
            app_stored example_client 0)"
proof -
  let ?two = "example_env [respond 200 ''200 OK'' ''{Items:[other,remote]}'']"
  let ?one = "example_env [respond 200 ''200 OK'' ''{Items:[other]}'']"
  let ?resp2 = "\<lparr>StatusCode = 200, Status = ''200 OK'', Body = Inr ''{Items:[other,remote]}''\<rparr>"
  let ?resp1 = "\<lparr>StatusCode = 200, Status = ''200 OK'', Body = Inr ''{Items:[other]}''\<rparr>"
  obtain r1 where r1: "applicationReadRequest ?two app_stored example_client = Inr r1"
    using example_read_request by blast
  obtain r2 where r2: "applicationReadRequest ?one app_stored example_client = Inr r2"
    using example_read_request by blast
  have st: "StatusCode ?resp2 = 200" and bd: "Body ?resp2 = Inr ''{Items:[other,remote]}''"
    by simp_all
  have items: "Unmarshal_apps ?two ''{Items:[other,remote]}'' = Inr (app_other # app_remote # [])"
    by (simp add: example_unmarshal_apps_def)
  note t = application_read_takes_first_item [OF r1 example_do_first st bd items]
  have c1: "\<exists>d'. resourceAppScanApplicationRead ?two app_stored example_client 0 = ((None, d'), 1)
       \<and> rd_id d' = ''123''
       \<and> rd_attrs d' ''name'' = Some ''Other''
       \<and> rd_attrs d' ''asset_group_id'' = Some ''AG2''
       \<and> rd_attrs d' ''business_impact'' = Some ''Unspecified''"
    using t [THEN conjunct1]
    by (simp add: updated_from_def app_other_def app_stored_def) blast
  have c2: "app_other ''Id'' = Some (JString ''999'')"
    by (simp add: app_other_def)
  have h: "applicationReadRequest ?one app_stored example_client = Inr r2
       \<and> Client_Do ?one r2 0 = (Inr ?resp1, Suc 0)
       \<and> StatusCode ?resp1 = 200 \<and> Body ?resp1 = Inr ''{Items:[other]}''
       \<and> Unmarshal_apps ?one ''{Items:[other]}'' = Inr [app_other(''Id'' := Some (JString ''999''))]"
    using r2 by (simp add: example_do_first example_unmarshal_apps_def app_other_Id)
  have c3: "fst (resourceAppScanApplicationRead ?one app_stored example_client 0) =
     fst (resourceAppScanApplicationRead ?two app_stored example_client 0)"
    by (rule t [THEN conjunct2, rule_format, OF h])
  from c1 c2 c3 show ?thesis by blast
qed

section \<open>Data sources: the lookups by name\<close>

lemma d_Set_asset_group:
  "attr \<in> {''name'', ''description''} \<Longrightarrow>
     d_Set (SchemaMap dataSourceAssetGroup) d attr v = (None, d\<lparr>rd_attrs := (rd_attrs d)(attr \<mapsto> v)\<rparr>)"
  by (auto simp add: d_Set_def dataSourceAssetGroup_def schema0_def)

lemma d_Set_business_unit:
  "attr \<in> {''name'', ''description''} \<Longrightarrow>
     d_Set (SchemaMap dataSourceBusinessUnit) d attr v = (None, d\<lparr>rd_attrs := (rd_attrs d)(attr \<mapsto> v)\<rparr>)"
  by (auto simp add: d_Set_def dataSourceBusinessUnit_def schema0_def)

lemma asset_group_lookup:
  assumes "assetGroupRequest env d client = Inr req"
      and "Client_Do env req w = (Inr resp, w')"
      and "StatusCode resp = 200" and "Body resp = Inr b" and "Unmarshal_items env b = Inr items"
  shows "length items = 0 \<Longrightarrow> dataSourceAssetGroupRead env d client w =
           ((Some (Errorf (''no asset group found with name: '' @ d_Get d ''name'')), d), w')"
    and "2 \<le> length items \<Longrightarrow> dataSourceAssetGroupRead env d client w =
           ((Some (Errorf (''multiple asset groups found with name: '' @ d_Get d ''name'')), d), w')"
    and "items = [it] \<Longrightarrow> dataSourceAssetGroupRead env d client w =
           ((None, d\<lparr>rd_id := item_Id it,
                      rd_attrs := (rd_attrs d)(''name'' \<mapsto> item_Name it,
                                                ''description'' \<mapsto> item_Description it)\<rparr>), w')"
  using assms
  by (auto simp add: dataSourceAssetGroupRead_def Let_def d_Set_asset_group d_SetId_def)

lemma business_unit_lookup:
  assumes "businessUnitRequest env d client = Inr req"
      and "Client_Do env req w = (Inr resp, w')"
      and "StatusCode resp = 200" and "Body resp = Inr b" and "Unmarshal_items env b = Inr items"
  shows "length items = 0 \<Longrightarrow> dataSourceBusinessUnitRead env d client w =
           ((Some (Errorf (''no BusinessUnit found with name: '' @ d_Get d ''name'')), d), w')"
    and "2 \<le> length items \<Longrightarrow> dataSourceBusinessUnitRead env d client w =
           ((Some (Errorf (''multiple BusinessUnits found with name: '' @ d_Get d ''name'')), d), w')"
    and "items = [it] \<Longrightarrow> dataSourceBusinessUnitRead env d client w =
           ((None, d\<lparr>rd_id := item_Id it,
                      rd_attrs := (rd_attrs d)(''name'' \<mapsto> item_Name it,
                                                ''description'' \<mapsto> item_Description it)\<rparr>), w')"
  using assms
  by (auto simp add: dataSourceBusinessUnitRead_def Let_def d_Set_business_unit d_SetId_def)

text \<open>What a successful lookup leaves in the local state.\<close>

lemma found_state:
  assumes "d' = d\<lparr>rd_id := item_Id it,
                  rd_attrs := (rd_attrs d)(''name'' \<mapsto> item_Name it,
                                            ''description'' \<mapsto> item_Description it)\<rparr>"
  shows "rd_id d' = item_Id it \<and> d_Get d' ''name'' = item_Name it
       \<and> d_Get d' ''description'' = item_Description it
       \<and> rd_lists d' = rd_lists d
       \<and> (\<forall>k. k \<notin> {''name'', ''description''} \<longrightarrow> rd_attrs d' k = rd_attrs d k)"
  using assms by (simp add: d_Get_def)

text \<open>
  Claim C4. For the asset-group lookup and for the business-unit lookup alike, once the
  server has answered with status 200 and the body decodes: no item gives the error
  ``no asset group found with name: X'' (``no BusinessUnit found with name: X''), two or
  more items give ``multiple asset groups found with name: X'' (``multiple BusinessUnits
  found with name: X''), both with the local state unchanged; exactly one item gives no
  error and sets the local id, name and description to the item's Id, Name and
  Description, leaving everything else as it was.
\<close>

theorem single_lookup_outcomes:
  "(\<forall>req resp w' b items.
      assetGroupRequest env d client = Inr req \<and> Client_Do env req w = (Inr resp, w')
      \<and> StatusCode resp = 200 \<and> Body resp = Inr b \<and> Unmarshal_items env b = Inr items \<longrightarrow>
      (length items = 0 \<longrightarrow> dataSourceAssetGroupRead env d client w =
         ((Some (Errorf (''no asset group found with name: '' @ d_Get d ''name'')), d), w'))
    \<and> (2 \<le> length items \<longrightarrow> dataSourceAssetGroupRead env d client w =
         ((Some (Errorf (''multiple asset groups found with name: '' @ d_Get d ''name'')), d), w'))
    \<and> (\<forall>it. items = [it] \<longrightarrow>
         (\<exists>d'. dataSourceAssetGroupRead env d client w = ((None, d'), w')
            \<and> rd_id d' = item_Id it \<and> d_Get d' ''name'' = item_Name it
            \<and> d_Get d' ''description'' = item_Description it
            \<and> rd_lists d' = rd_lists d
            \<and> (\<forall>k. k \<notin> {''name'', ''description''} \<longrightarrow> rd_attrs d' k = rd_attrs d k))))
   \<and> (\<forall>req resp w' b items.
      businessUnitRequest env d client = Inr req \<and> Client_Do env req w = (Inr resp, w')
      \<and> StatusCode resp = 200 \<and> Body resp = Inr b \<and> Unmarshal_items env b = Inr items \<longrightarrow>
      (length items = 0 \<longrightarrow> dataSourceBusinessUnitRead env d client w =
         ((Some (Errorf (''no BusinessUnit found with name: '' @ d_Get d ''name'')), d), w'))
    \<and> (2 \<le> length items \<longrightarrow> dataSourceBusinessUnitRead env d client w =
         ((Some (Errorf (''multiple BusinessUnits found with name: '' @ d_Get d ''name'')), d), w'))
    \<and> (\<forall>it. items = [it] \<longrightarrow>
         (\<exists>d'. dataSourceBusinessUnitRead env d client w = ((None, d'), w')
            \<and> rd_id d' = item_Id it \<and> d_Get d' ''name'' = item_Name it
            \<and> d_Get d' ''description'' = item_Description it
            \<and> rd_lists d' = rd_lists d
            \<and> (\<forall>k. k \<notin> {''name'', ''description''} \<longrightarrow> rd_attrs d' k = rd_attrs d k))))"
proof (intro conjI allI impI; elim conjE)
  fix req resp w' b items
  assume h: "assetGroupRequest env d client = Inr req" "Client_Do env req w = (Inr resp, w')"
    "StatusCode resp = 200" "Body resp = Inr b" "Unmarshal_items env b = Inr items"
  {
    assume "length items = 0"
    then show "dataSourceAssetGroupRead env d client w =
         ((Some (Errorf (''no asset group found with name: '' @ d_Get d ''name'')), d), w')"
      by (rule asset_group_lookup(1) [OF h])
  next
    assume "2 \<le> length items"
    then show "dataSourceAssetGroupRead env d client w =
         ((Some (Errorf (''multiple asset groups found with name: '' @ d_Get d ''name'')), d), w')"
      by (rule asset_group_lookup(2) [OF h])
  next
    fix it
    assume "items = [it]"
    from asset_group_lookup(3) [OF h this] found_state [OF refl, of d it]
    show "\<exists>d'. dataSourceAssetGroupRead env d client w = ((None, d'), w')
            \<and> rd_id d' = item_Id it \<and> d_Get d' ''name'' = item_Name it
            \<and> d_Get d' ''description'' = item_Description it
            \<and> rd_lists d' = rd_lists d
            \<and> (\<forall>k. k \<notin> {''name'', ''description''} \<longrightarrow> rd_attrs d' k = rd_attrs d k)"
      by (intro exI conjI) (assumption, simp_all)
  }
next
  fix req resp w' b items
  assume h: "businessUnitRequest env d client = Inr req" "Client_Do env req w = (Inr resp, w')"
    "StatusCode resp = 200" "Body resp = Inr b" "Unmarshal_items env b = Inr items"
  {
    assume "length items = 0"
    then show "dataSourceBusinessUnitRead env d client w =
         ((Some (Errorf (''no BusinessUnit found with name: '' @ d_Get d ''name'')), d), w')"
      by (rule business_unit_lookup(1) [OF h])
  next
    assume "2 \<le> length items"
    then show "dataSourceBusinessUnitRead env d client w =
         ((Some (Errorf (''multiple BusinessUnits found with name: '' @ d_Get d ''name'')), d), w')"
      by (rule business_unit_lookup(2) [OF h])
  next
    fix it
    assume "items = [it]"
    from business_unit_lookup(3) [OF h this] found_state [OF refl, of d it]
    show "\<exists>d'. dataSourceBusinessUnitRead env d client w = ((None, d'), w')
            \<and> rd_id d' = item_Id it \<and> d_Get d' ''name'' = item_Name it
            \<and> d_Get d' ''description'' = item_Description it
            \<and> rd_lists d' = rd_lists d
            \<and> (\<forall>k. k \<notin> {''name'', ''description''} \<longrightarrow> rd_attrs d' k = rd_attrs d k)"
      by (intro exI conjI) (assumption, simp_all)
  }
qed


text \<open>
  The name Web looked up against answers with no item, two items and one item, for both
  data sources.
\<close>

lemma example_lookup_requests:
  "\<exists>req. assetGroupRequest (example_env script) d client = Inr req"
  "\<exists>req. businessUnitRequest (example_env script) d client = Inr req"
  by (simp_all add: assetGroupRequest_def businessUnitRequest_def NewRequest_def Let_def)

lemma example_unmarshal_items [simp]:
  "Unmarshal_items (example_env script) = example_unmarshal_items"
  by (simp add: example_env_def)

theorem single_lookup_outcomes_witness:
  "dataSourceAssetGroupRead (example_env [respond 200 ''200 OK'' ''{Items:[]}'']) lookup_config
       example_client 0 =
     ((Some (Errorf ''no asset group found with name: Web''), lookup_config), 1)
   \<and> dataSourceAssetGroupRead (example_env [respond 200 ''200 OK'' ''{Items:[a,b]}'']) lookup_config
       example_client 0 =
     ((Some (Errorf ''multiple asset groups found with name: Web''), lookup_config), 1)
   \<and> (\<exists>d'. dataSourceAssetGroupRead (example_env [respond 200 ''200 OK'' ''{Items:[a]}''])
              lookup_config example_client 0 = ((None, d'), 1)
          \<and> rd_id d' = ''g1'' \<and> d_Get d' ''name'' = ''Web'' \<and> d_Get d' ''description'' = ''Web apps'')
   \<and> dataSourceBusinessUnitRead (example_env [respond 200 ''200 OK'' ''{Items:[]}'']) lookup_config
       example_client 0 =
     ((Some (Errorf ''no BusinessUnit found with name: Web''), lookup_config), 1)
   \<and> dataSourceBusinessUnitRead (example_env [respond 200 ''200 OK'' ''{Items:[a,b]}'']) lookup_config
       example_client 0 =
     ((Some (Errorf ''multiple BusinessUnits found with name: Web''), lookup_config), 1)
   \<and> (\<exists>d'. dataSourceBusinessUnitRead (example_env [respond 200 ''200 OK'' ''{Items:[a]}''])
              lookup_config example_client 0 = ((None, d'), 1)
          \<and> rd_id d' = ''g1'' \<and> d_Get d' ''name'' = ''Web'' \<and> d_Get d' ''description'' = ''Web apps'')"
proof -
  let ?none = "example_env [respond 200 ''200 OK'' ''{Items:[]}'']"
  let ?two = "example_env [respond 200 ''200 OK'' ''{Items:[a,b]}'']"
  let ?one = "example_env [respond 200 ''200 OK'' ''{Items:[a]}'']"
  have name: "d_Get lookup_config ''name'' = ''Web''"
    by (simp add: lookup_config_def d_Get_def)
  obtain a0 a2 a1 where a:
    "assetGroupRequest ?none lookup_config example_client = Inr a0"
    "assetGroupRequest ?two lookup_config example_client = Inr a2"
    "assetGroupRequest ?one lookup_config example_client = Inr a1"
    using example_lookup_requests(1) by metis
  obtain b0 b2 b1 where b:
    "businessUnitRequest ?none lookup_config example_client = Inr b0"
    "businessUnitRequest ?two lookup_config example_client = Inr b2"
    "businessUnitRequest ?one lookup_config example_client = Inr b1"
    using example_lookup_requests(2) by metis
  note none = single_lookup_outcomes [of ?none lookup_config example_client 0]
  note two = single_lookup_outcomes [of ?two lookup_config example_client 0]
  note one = single_lookup_outcomes [of ?one lookup_config example_client 0]
  have c1: "dataSourceAssetGroupRead ?none lookup_config example_client 0 =
     ((Some (Errorf ''no asset group found with name: Web''), lookup_config), 1)"
    using none [THEN conjunct1, rule_format, of a0 _ "Suc 0" "''{Items:[]}''" "[]"] a(1)
    by (simp add: example_do_first example_unmarshal_items_def name)
  have c2: "dataSourceAssetGroupRead ?two lookup_config example_client 0 =
     ((Some (Errorf ''multiple asset groups found with name: Web''), lookup_config), 1)"
    using two [THEN conjunct1, rule_format, of a2 _ "Suc 0" "''{Items:[a,b]}''" "[item_a, item_b]"] a(2)
    by (simp add: example_do_first example_unmarshal_items_def name)
  have c3: "\<exists>d'. dataSourceAssetGroupRead ?one lookup_config example_client 0 = ((None, d'), 1)
          \<and> rd_id d' = ''g1'' \<and> d_Get d' ''name'' = ''Web'' \<and> d_Get d' ''description'' = ''Web apps''"
    using one [THEN conjunct1, rule_format, of a1 _ "Suc 0" "''{Items:[a]}''" "[item_a]"] a(3)
    by (simp add: example_do_first example_unmarshal_items_def item_a_def) blast
  have c4: "dataSourceBusinessUnitRead ?none lookup_config example_client 0 =
     ((Some (Errorf ''no BusinessUnit found with name: Web''), lookup_config), 1)"
    using none [THEN conjunct2, rule_format, of b0 _ "Suc 0" "''{Items:[]}''" "[]"] b(1)
    by (simp add: example_do_first example_unmarshal_items_def name)
  have c5: "dataSourceBusinessUnitRead ?two lookup_config example_client 0 =
     ((Some (Errorf ''multiple BusinessUnits found with name: Web''), lookup_config), 1)"
    using two [THEN conjunct2, rule_format, of b2 _ "Suc 0" "''{Items:[a,b]}''" "[item_a, item_b]"] b(2)
    by (simp add: example_do_first example_unmarshal_items_def name)
  have c6: "\<exists>d'. dataSourceBusinessUnitRead ?one lookup_config example_client 0 = ((None, d'), 1)
          \<and> rd_id d' = ''g1'' \<and> d_Get d' ''name'' = ''Web'' \<and> d_Get d' ''description'' = ''Web apps''"
    using one [THEN conjunct2, rule_format, of b1 _ "Suc 0" "''{Items:[a]}''" "[item_a]"] b(3)
    by (simp add: example_do_first example_unmarshal_items_def item_a_def) blast
  from c1 c2 c3 c4 c5 c6 show ?thesis by blast
qed

section \<open>The login\<close>

lemma login_request_shape:
  "loginRequest env d = Inr req \<Longrightarrow>
     Method req = ''POST'' \<and> URL req = d_Get d ''api_endpoint'' @ ''/api/v4/Account/ApiKeyLogin''
     \<and> (\<exists>body. RequestBody req = Some body
            \<and> Marshal env [''KeyId'' \<mapsto> d_Get d ''key_id'',
                            ''KeySecret'' \<mapsto> d_Get d ''key_secret''] = Inr body)"
  by (auto simp add: loginRequest_def NewRequest_def req_Header_Set_def Let_def
      split: sum.splits option.splits)

lemma login_outcomes:
  assumes "loginRequest env d = Inr req" and "Client_Do env req w = (Inr resp, w')"
  shows "StatusCode resp \<noteq> 200 \<Longrightarrow> providerConfigure env d w =
           (Inl (Errorf (''failed to authenticate via API key, status: '' @ Status resp)), w')"
    and "StatusCode resp = 200 \<and> Body resp = Inr b \<and> Unmarshal_token env b = Inr token \<Longrightarrow>
           providerConfigure env d w =
             (if token = '''' then
                (Inl (Errorf ''failed to obtain token from API key login response''), w')
              else (Inr \<lparr>ApiEndpoint = d_Get d ''api_endpoint'', ApiToken = token\<rparr>, w'))"
  using assms by (simp_all add: providerConfigure_def Let_def)

lemma login_session:
  "providerConfigure env d w = (Inr c, w') \<Longrightarrow>
     ApiToken c \<noteq> '''' \<and> ApiEndpoint c = d_Get d ''api_endpoint''
     \<and> (\<exists>req resp b. loginRequest env d = Inr req \<and> Client_Do env req w = (Inr resp, w')
            \<and> StatusCode resp = 200 \<and> Body resp = Inr b
            \<and> Unmarshal_token env b = Inr (ApiToken c))"
  by (auto simp add: providerConfigure_def Let_def split: sum.splits prod.splits if_splits)

text \<open>
  Claim C5. The login posts to \<^verbatim>\<open>{endpoint}/api/v4/Account/ApiKeyLogin\<close>. Once the
  server has answered: a status other than 200 gives the error ``failed to authenticate
  via API key, status: ...''; status 200 with a body that decodes to an empty Token
  (missing or empty in the answer) gives the error ``failed to obtain token from API key
  login response''; status 200 with a non-empty Token gives the client whose endpoint is
  the configured \<open>api_endpoint\<close> and whose token is that Token. Whatever the
  environment does, a client that \<open>providerConfigure\<close> returns has a non-empty token, the
  one decoded from a 200 answer, and the configured endpoint.
\<close>

theorem login_outcomes_and_session:
  "(\<forall>req. loginRequest env d = Inr req \<longrightarrow>
       Method req = ''POST''
       \<and> URL req = d_Get d ''api_endpoint'' @ ''/api/v4/Account/ApiKeyLogin'')
   \<and> (\<forall>req resp w'. loginRequest env d = Inr req \<and> Client_Do env req w = (Inr resp, w') \<longrightarrow>
        (StatusCode resp \<noteq> 200 \<longrightarrow> providerConfigure env d w =
           (Inl (Errorf (''failed to authenticate via API key, status: '' @ Status resp)), w'))
      \<and> (\<forall>b token. StatusCode resp = 200 \<and> Body resp = Inr b
              \<and> Unmarshal_token env b = Inr token \<longrightarrow>
           (token = '''' \<longrightarrow> providerConfigure env d w =
              (Inl (Errorf ''failed to obtain token from API key login response''), w'))
         \<and> (token \<noteq> '''' \<longrightarrow> providerConfigure env d w =
              (Inr \<lparr>ApiEndpoint = d_Get d ''api_endpoint'', ApiToken = token\<rparr>, w'))))
   \<and> (\<forall>c w'. providerConfigure env d w = (Inr c, w') \<longrightarrow>
        ApiToken c \<noteq> '''' \<and> ApiEndpoint c = d_Get d ''api_endpoint''
        \<and> (\<exists>req resp b. loginRequest env d = Inr req \<and> Client_Do env req w = (Inr resp, w')
               \<and> StatusCode resp = 200 \<and> Body resp = Inr b
               \<and> Unmarshal_token env b = Inr (ApiToken c)))"
proof (intro conjI allI impI)
  fix req
  assume "loginRequest env d = Inr req"
  from login_request_shape [OF this]
  show "Method req = ''POST''"
    and "URL req = d_Get d ''api_endpoint'' @ ''/api/v4/Account/ApiKeyLogin''"
    by simp_all
next
  fix req resp w'
  assume h: "loginRequest env d = Inr req \<and> Client_Do env req w = (Inr resp, w')"
  assume "StatusCode resp \<noteq> 200"
  with h show "providerConfigure env d w =
      (Inl (Errorf (''failed to authenticate via API key, status: '' @ Status resp)), w')"
    using login_outcomes(1) [of env d req w resp w'] by simp
next
  fix req resp w' b token
  assume h: "loginRequest env d = Inr req \<and> Client_Do env req w = (Inr resp, w')"
    and ok: "StatusCode resp = 200 \<and> Body resp = Inr b \<and> Unmarshal_token env b = Inr token"
  assume "token = ''''"
  with h ok show "providerConfigure env d w =
      (Inl (Errorf ''failed to obtain token from API key login response''), w')"
    using login_outcomes(2) [of env d req w resp w' b token] by simp
next
  fix req resp w' b token
  assume h: "loginRequest env d = Inr req \<and> Client_Do env req w = (Inr resp, w')"
    and ok: "StatusCode resp = 200 \<and> Body resp = Inr b \<and> Unmarshal_token env b = Inr token"
  assume "token \<noteq> ''''"
  with h ok show "providerConfigure env d w =
      (Inr \<lparr>ApiEndpoint = d_Get d ''api_endpoint'', ApiToken = token\<rparr>, w')"
    using login_outcomes(2) [of env d req w resp w' b token] by simp
next
  fix c w'
  assume "providerConfigure env d w = (Inr c, w')"
  from login_session [OF this]
  show "ApiToken c \<noteq> ''''" and "ApiEndpoint c = d_Get d ''api_endpoint''"
    and "\<exists>req resp b. loginRequest env d = Inr req \<and> Client_Do env req w = (Inr resp, w')
               \<and> StatusCode resp = 200 \<and> Body resp = Inr b
               \<and> Unmarshal_token env b = Inr (ApiToken c)"
    by simp_all
qed

text \<open>
  Three logins: refused with 401, answered without a token, answered with the token abc.
\<close>

lemma example_login_request:
  "\<exists>req. loginRequest (example_env script) d = Inr req"
  by (simp add: loginRequest_def NewRequest_def Let_def example_env_def example_marshal_def)

lemma example_unmarshal_token [simp]:
  "Unmarshal_token (example_env script) = example_unmarshal_token"
  by (simp add: example_env_def)

theorem login_outcomes_and_session_witness:
  "providerConfigure (example_env [respond 401 ''401 Unauthorized'' '''']) provider_config 0 =
     (Inl (Errorf ''failed to authenticate via API key, status: 401 Unauthorized''), 1)
   \<and> providerConfigure (example_env [respond 200 ''200 OK'' ''{}'']) provider_config 0 =
     (Inl (Errorf ''failed to obtain token from API key login response''), 1)
   \<and> providerConfigure (example_env [respond 200 ''200 OK'' ''{Token:abc}'']) provider_config 0 =
     (Inr \<lparr>ApiEndpoint = ''https://cloud.appscan.com'', ApiToken = ''abc''\<rparr>, 1)
   \<and> ApiToken \<lparr>ApiEndpoint = ''https://cloud.appscan.com'', ApiToken = ''abc''\<rparr> \<noteq> ''''"
proof -
  let ?denied = "example_env [respond 401 ''401 Unauthorized'' '''']"
  let ?empty = "example_env [respond 200 ''200 OK'' ''{}'']"
  let ?good = "example_env [respond 200 ''200 OK'' ''{Token:abc}'']"
  have ep: "d_Get provider_config ''api_endpoint'' = ''https://cloud.appscan.com''"
    by (simp add: provider_config_def d_Get_def)
  obtain r1 r2 r3 where r:
    "loginRequest ?denied provider_config = Inr r1"
    "loginRequest ?empty provider_config = Inr r2"
    "loginRequest ?good provider_config = Inr r3"
    using example_login_request by metis
  note t1 = login_outcomes_and_session [of ?denied provider_config 0, THEN conjunct2, THEN conjunct1,
      rule_format, OF conjI [OF r(1) example_do_first]]
  note t2 = login_outcomes_and_session [of ?empty provider_config 0, THEN conjunct2, THEN conjunct1,
      rule_format, OF conjI [OF r(2) example_do_first]]
  note t3 = login_outcomes_and_session [of ?good provider_config 0, THEN conjunct2, THEN conjunct1,
      rule_format, OF conjI [OF r(3) example_do_first]]
  have c1: "providerConfigure ?denied provider_config 0 =
     (Inl (Errorf ''failed to authenticate via API key, status: 401 Unauthorized''), 1)"
    using t1 by simp
  have c2: "providerConfigure ?empty provider_config 0 =
     (Inl (Errorf ''failed to obtain token from API key login response''), 1)"
    using t2 [THEN conjunct2, rule_format, of "''{}''" "''''"] by (simp add: example_unmarshal_token_def)
  have c3: "providerConfigure ?good provider_config 0 =
     (Inr \<lparr>ApiEndpoint = ''https://cloud.appscan.com'', ApiToken = ''abc''\<rparr>, 1)"
    using t3 [THEN conjunct2, rule_format, of "''{Token:abc}''" "''abc''"] by (simp add: example_unmarshal_token_def ep)
  have c4: "ApiToken \<lparr>ApiEndpoint = ''https://cloud.appscan.com'', ApiToken = ''abc''\<rparr> \<noteq> ''''"
    using login_outcomes_and_session [of ?good provider_config 0, THEN conjunct2, THEN conjunct2,
        rule_format, OF c3 [unfolded One_nat_def]]
    by simp
  from c1 c2 c3 c4 show ?thesis by blast
qed

section \<open>The business impact of an application\<close>

lemma StringInSlice_exact:
  "StringInSlice valid False v k = [] \<longleftrightarrow> v \<in> set valid"
  by (auto simp add: StringInSlice_def list_ex_iff)

lemma business_impact_lookup:
  "map_of (SchemaMap resourceAppScanApplication) ''business_impact'' =
     Some (schema0\<lparr>Type := TypeString, Optional := True, Default := Some ''Unspecified'',
             ValidateFunc := Some (StringInSlice business_impacts False)\<rparr>)"
  by (simp add: resourceAppScanApplication_def)

lemma business_impacts_set:
  "set business_impacts = {''Unspecified'', ''Low'', ''Medium'', ''High'', ''Critical''}"
  by (simp add: business_impacts_def)

text \<open>
  Claim C6. The schema of the application declares \<open>business_impact\<close> with the default
  ``Unspecified'', so that the attribute reads ``Unspecified'' when the configuration
  omits it, and with a validation function that returns an error for every value outside
  Unspecified, Low, Medium, High, Critical (and none for these five; the match is exact,
  case included).
\<close>

theorem business_impact_default_and_validation:
  "(\<exists>s f. map_of (SchemaMap resourceAppScanApplication) ''business_impact'' = Some s
       \<and> Default s = Some ''Unspecified''
       \<and> ValidateFunc s = Some f
       \<and> (\<forall>v k. v \<notin> {''Unspecified'', ''Low'', ''Medium'', ''High'', ''Critical''} \<longrightarrow> f v k \<noteq> [])
       \<and> (\<forall>v k. v \<in> {''Unspecified'', ''Low'', ''Medium'', ''High'', ''Critical''} \<longrightarrow> f v k = []))
   \<and> (\<forall>cfg. cfg ''business_impact'' = None \<longrightarrow>
         d_Get (from_config (SchemaMap resourceAppScanApplication) cfg) ''business_impact'' =
           ''Unspecified'')"
proof (rule conjI)
  show "\<exists>s f. map_of (SchemaMap resourceAppScanApplication) ''business_impact'' = Some s
       \<and> Default s = Some ''Unspecified''
       \<and> ValidateFunc s = Some f
       \<and> (\<forall>v k. v \<notin> {''Unspecified'', ''Low'', ''Medium'', ''High'', ''Critical''} \<longrightarrow> f v k \<noteq> [])
       \<and> (\<forall>v k. v \<in> {''Unspecified'', ''Low'', ''Medium'', ''High'', ''Critical''} \<longrightarrow> f v k = [])"
    unfolding business_impact_lookup business_impacts_set [symmetric]
    by (simp add: StringInSlice_exact)
  show "\<forall>cfg. cfg ''business_impact'' = None \<longrightarrow>
         d_Get (from_config (SchemaMap resourceAppScanApplication) cfg) ''business_impact'' =
           ''Unspecified''"
    by (simp add: business_impact_default)
qed


text \<open>
  The values Severe, high and the empty string are refused, High is accepted, and a
  configuration with only a name reads the impact as Unspecified.
\<close>

theorem business_impact_default_and_validation_witness:
  "(\<exists>s f. map_of (SchemaMap resourceAppScanApplication) ''business_impact'' = Some s
       \<and> ValidateFunc s = Some f
       \<and> f ''Severe'' ''business_impact'' \<noteq> []
       \<and> f ''high'' ''business_impact'' \<noteq> []
       \<and> f '''' ''business_impact'' \<noteq> []
       \<and> f ''High'' ''business_impact'' = [])
   \<and> d_Get (from_config (SchemaMap resourceAppScanApplication) [''name'' \<mapsto> ''App1''])
        ''business_impact'' = ''Unspecified''"
proof (rule conjI)
  from business_impact_default_and_validation [THEN conjunct1]
  obtain s f where sf: "map_of (SchemaMap resourceAppScanApplication) ''business_impact'' = Some s"
      "ValidateFunc s = Some f"
      and out: "\<forall>v k. v \<notin> {''Unspecified'', ''Low'', ''Medium'', ''High'', ''Critical''} \<longrightarrow> f v k \<noteq> []"
      and inside: "\<forall>v k. v \<in> {''Unspecified'', ''Low'', ''Medium'', ''High'', ''Critical''} \<longrightarrow> f v k = []"
    by (elim exE conjE)
  have a: "f ''Severe'' ''business_impact'' \<noteq> []"
    using out [rule_format, of "''Severe''" "''business_impact''"] by simp
  have b: "f ''high'' ''business_impact'' \<noteq> []"
    using out [rule_format, of "''high''" "''business_impact''"] by simp
  have c: "f '''' ''business_impact'' \<noteq> []"
    using out [rule_format, of "''''" "''business_impact''"] by simp
  have d: "f ''High'' ''business_impact'' = []"
    using inside [rule_format, of "''High''" "''business_impact''"] by simp
  show "\<exists>s f. map_of (SchemaMap resourceAppScanApplication) ''business_impact'' = Some s
       \<and> ValidateFunc s = Some f
       \<and> f ''Severe'' ''business_impact'' \<noteq> []
       \<and> f ''high'' ''business_impact'' \<noteq> []
       \<and> f '''' ''business_impact'' \<noteq> []
       \<and> f ''High'' ''business_impact'' = []"
    apply (rule exI [where x = s])
    apply (rule exI [where x = f])
    apply (simp only: sf a b c d)
    apply simp
    done
  show "d_Get (from_config (SchemaMap resourceAppScanApplication) [''name'' \<mapsto> ''App1''])
        ''business_impact'' = ''Unspecified''"
    using business_impact_default_and_validation [THEN conjunct2, rule_format,
        of "[''name'' \<mapsto> ''App1'']"]
    by simp
qed

section \<open>Data sources: the list of asset groups\<close>

text \<open>The loop that fills the output slice is the map of \<open>group_of\<close> over the items.\<close>

lemma fill_groups_from:
  "length pre = i \<Longrightarrow> length post = length items \<Longrightarrow>
     fill_groups i items (pre @ post) = pre @ map (\<lambda>ag. Some (group_of ag)) items"
proof (induction items arbitrary: i pre post)
  case Nil
  then show ?case by simp
next
  case (Cons ag rest)
  from Cons.prems(2) obtain p post' where post: "post = p # post'" and len: "length post' = length rest"
    by (cases post) simp_all
  from Cons.prems(1) have upd: "(pre @ p # post')[i := Some (group_of ag)] =
      (pre @ [Some (group_of ag)]) @ post'"
    by (simp add: list_update_append)
  have "fill_groups (Suc i) rest ((pre @ [Some (group_of ag)]) @ post') =
      (pre @ [Some (group_of ag)]) @ map (\<lambda>ag. Some (group_of ag)) rest"
    using Cons.prems(1) len by (intro Cons.IH) simp_all
  with post upd show ?case by simp
qed

lemma make_groups_map: "make_groups items = map (\<lambda>ag. Some (group_of ag)) items"
  using fill_groups_from [of "[]" 0 "replicate (length items) None" items]
  by (simp add: make_groups_def)

lemma asset_groups_query:
  "assetGroupsQuery d =
     (if d_Get d ''name'' \<noteq> '''' then
        [(''$filter'', [''Name eq '' @ quote @ d_Get d ''name'' @ quote])]
      else [])"
  by (simp add: assetGroupsQuery_def d_GetOk_def Let_def)

lemma QueryEscape_filter: "QueryEscape ''$filter'' = ''%24filter''"
  by (simp add: QueryEscape_def escape_byte_def shouldEscape_def upperhex_def)

lemma asset_groups_query_string:
  "Encode (assetGroupsQuery d) =
     (if d_Get d ''name'' \<noteq> '''' then
        ''%24filter='' @ QueryEscape (''Name eq '' @ quote @ d_Get d ''name'' @ quote)
      else '''')"
  by (simp add: asset_groups_query Encode_def QueryEscape_filter)

lemma asset_groups_request_shape:
  "assetGroupsRequest env d client = Inr req \<Longrightarrow>
     Method req = ''GET''
     \<and> URL req = ApiEndpoint client @ ''/api/v4/AssetGroups?'' @ Encode (assetGroupsQuery d)"
  by (auto simp add: assetGroupsRequest_def NewRequest_def req_Header_Set_def Let_def
      split: sum.splits option.splits)

lemma d_Set_list_asset_groups:
  "d_Set_list (SchemaMap dataSourceAssetGroups) d ''asset_groups'' v =
     (None, d\<lparr>rd_lists := (rd_lists d)(''asset_groups'' \<mapsto> v)\<rparr>)"
  by (simp add: d_Set_list_def dataSourceAssetGroups_def schema0_def)

lemma asset_groups_outcomes:
  assumes "assetGroupsRequest env d client = Inr req" and "Client_Do env req w = (Inr resp, w')"
  shows "StatusCode resp \<noteq> 200 \<Longrightarrow> dataSourceAssetGroupsRead env d client w =
           ((Some (Errorf (''failed to read asset groups, status: '' @ Status resp)), d), w')"
    and "StatusCode resp = 200 \<and> Body resp = Inr b \<and> Unmarshal_items env b = Inr items \<Longrightarrow>
           dataSourceAssetGroupsRead env d client w =
             ((None, d\<lparr>rd_id := ''asset_groups'',
                        rd_lists := (rd_lists d)(''asset_groups'' \<mapsto>
                           map (\<lambda>ag. Some (group_of ag)) items)\<rparr>), w')"
  using assms
  by (simp_all add: dataSourceAssetGroupsRead_def d_Set_list_asset_groups make_groups_map d_SetId_def)

text \<open>
  Claim C7. The query of the list read has a \<^verbatim>\<open>$filter\<close> parameter exactly when
  \<^verbatim>\<open>d.GetOk("name")\<close> is ok (a non-empty name is configured), and the URL is
  \<^verbatim>\<open>{endpoint}/api/v4/AssetGroups?\<close> followed by the encoded query (nothing when there is
  no name). Once the server has answered: a status other than 200 gives the error
  ``failed to read asset groups, status: ...'' with the local state unchanged; status
  200 with a body that decodes gives no error, the id ``asset\_groups'', and under
  \<open>asset_groups\<close> a list as long as the decoded \<^verbatim>\<open>Items\<close> whose i-th element holds the
  id, name and description of the i-th item; for an empty \<^verbatim>\<open>Items\<close> that is the empty
  list.
\<close>

theorem asset_groups_list_outcomes:
  "((''$filter'' \<in> set (map fst (assetGroupsQuery d))) = (d_Get d ''name'' \<noteq> ''''))
   \<and> Encode (assetGroupsQuery d) =
       (if d_Get d ''name'' \<noteq> '''' then
          ''%24filter='' @ QueryEscape (''Name eq '' @ quote @ d_Get d ''name'' @ quote)
        else '''')
   \<and> (\<forall>req. assetGroupsRequest env d client = Inr req \<longrightarrow>
         Method req = ''GET''
         \<and> URL req = ApiEndpoint client @ ''/api/v4/AssetGroups?'' @ Encode (assetGroupsQuery d))
   \<and> (\<forall>req resp w'. assetGroupsRequest env d client = Inr req
           \<and> Client_Do env req w = (Inr resp, w') \<longrightarrow>
         (StatusCode resp \<noteq> 200 \<longrightarrow> dataSourceAssetGroupsRead env d client w =
            ((Some (Errorf (''failed to read asset groups, status: '' @ Status resp)), d), w'))
       \<and> (\<forall>b items. StatusCode resp = 200 \<and> Body resp = Inr b
               \<and> Unmarshal_items env b = Inr items \<longrightarrow>
            (\<exists>d' groups. dataSourceAssetGroupsRead env d client w = ((None, d'), w')
               \<and> rd_id d' = ''asset_groups''
               \<and> rd_attrs d' = rd_attrs d
               \<and> rd_lists d' ''asset_groups'' = Some groups
               \<and> length groups = length items
               \<and> (\<forall>i < length items. groups ! i =
                     Some [(''id'', item_Id (items ! i)), (''name'', item_Name (items ! i)),
                           (''description'', item_Description (items ! i))]))))"
proof (intro conjI allI impI)
  show "(''$filter'' \<in> set (map fst (assetGroupsQuery d))) = (d_Get d ''name'' \<noteq> '''')"
    by (cases "d_Get d ''name'' = ''''") (simp_all add: asset_groups_query)
  show "Encode (assetGroupsQuery d) =
       (if d_Get d ''name'' \<noteq> '''' then
          ''%24filter='' @ QueryEscape (''Name eq '' @ quote @ d_Get d ''name'' @ quote)
        else '''')"
    by (rule asset_groups_query_string)
next
  fix req
  assume "assetGroupsRequest env d client = Inr req"
  from asset_groups_request_shape [OF this]
  show "Method req = ''GET''"
    and "URL req = ApiEndpoint client @ ''/api/v4/AssetGroups?'' @ Encode (assetGroupsQuery d)"
    by simp_all
next
  fix req resp w'
  assume h: "assetGroupsRequest env d client = Inr req \<and> Client_Do env req w = (Inr resp, w')"
  assume "StatusCode resp \<noteq> 200"
  with h show "dataSourceAssetGroupsRead env d client w =
      ((Some (Errorf (''failed to read asset groups, status: '' @ Status resp)), d), w')"
    using asset_groups_outcomes(1) [of env d client req w resp w'] by simp
next
  fix req resp w' b items
  assume h: "assetGroupsRequest env d client = Inr req \<and> Client_Do env req w = (Inr resp, w')"
    and ok: "StatusCode resp = 200 \<and> Body resp = Inr b \<and> Unmarshal_items env b = Inr items"
  let ?groups = "map (\<lambda>ag. Some (group_of ag)) items"
  let ?d' = "d\<lparr>rd_id := ''asset_groups'', rd_lists := (rd_lists d)(''asset_groups'' \<mapsto> ?groups)\<rparr>"
  from h ok have r: "dataSourceAssetGroupsRead env d client w = ((None, ?d'), w')"
    using asset_groups_outcomes(2) [of env d client req w resp w' b items] by simp
  show "\<exists>d' groups. dataSourceAssetGroupsRead env d client w = ((None, d'), w')
               \<and> rd_id d' = ''asset_groups''
               \<and> rd_attrs d' = rd_attrs d
               \<and> rd_lists d' ''asset_groups'' = Some groups
               \<and> length groups = length items
               \<and> (\<forall>i < length items. groups ! i =
                     Some [(''id'', item_Id (items ! i)), (''name'', item_Name (items ! i)),
                           (''description'', item_Description (items ! i))])"
    apply (rule exI [where x = ?d'])
    apply (rule exI [where x = ?groups])
    apply (simp add: r group_of_def)
    done
qed


text \<open>
  A list read refused with 500, one without a name that gets no item, and one for the
  name Web that gets two items.
\<close>

lemma example_asset_groups_request:
  "\<exists>req. assetGroupsRequest (example_env script) d client = Inr req"
  by (simp add: assetGroupsRequest_def NewRequest_def Let_def)

theorem asset_groups_list_outcomes_witness:
  "Encode (assetGroupsQuery unnamed_config) = ''''
   \<and> Encode (assetGroupsQuery lookup_config) = ''%24filter=Name+eq+%27Web%27''
   \<and> ''$filter'' \<in> set (map fst (assetGroupsQuery lookup_config))
   \<and> ''$filter'' \<notin> set (map fst (assetGroupsQuery unnamed_config))
   \<and> dataSourceAssetGroupsRead (example_env [respond 500 ''500 Internal Server Error'' ''''])
         lookup_config example_client 0 =
       ((Some (Errorf ''failed to read asset groups, status: 500 Internal Server Error''),
         lookup_config), 1)
   \<and> (\<exists>d'. dataSourceAssetGroupsRead (example_env [respond 200 ''200 OK'' ''{Items:[]}''])
              unnamed_config example_client 0 = ((None, d'), 1)
          \<and> rd_id d' = ''asset_groups''
          \<and> rd_lists d' ''asset_groups'' = Some [])
   \<and> (\<exists>d' groups. dataSourceAssetGroupsRead (example_env [respond 200 ''200 OK'' ''{Items:[a,b]}''])
              lookup_config example_client 0 = ((None, d'), 1)
          \<and> rd_id d' = ''asset_groups''
          \<and> rd_lists d' ''asset_groups'' = Some groups
          \<and> length groups = 2
          \<and> groups ! 0 = Some [(''id'', ''g1''), (''name'', ''Web''), (''description'', ''Web apps'')]
          \<and> groups ! 1 = Some [(''id'', ''g2''), (''name'', ''Web''), (''description'', '''')])"
proof -
  let ?bad = "example_env [respond 500 ''500 Internal Server Error'' '''']"
  let ?none = "example_env [respond 200 ''200 OK'' ''{Items:[]}'']"
  let ?two = "example_env [respond 200 ''200 OK'' ''{Items:[a,b]}'']"
  have named: "d_Get lookup_config ''name'' = ''Web''"
    by (simp add: lookup_config_def d_Get_def)
  have unnamed: "d_Get unnamed_config ''name'' = ''''"
    by (simp add: unnamed_config_def d_Get_def)
  obtain r1 r2 r3 where r:
    "assetGroupsRequest ?bad lookup_config example_client = Inr r1"
    "assetGroupsRequest ?none unnamed_config example_client = Inr r2"
    "assetGroupsRequest ?two lookup_config example_client = Inr r3"
    using example_asset_groups_request by metis
  note bad = asset_groups_list_outcomes [of lookup_config ?bad example_client 0]
  note none = asset_groups_list_outcomes [of unnamed_config ?none example_client 0]
  note two = asset_groups_list_outcomes [of lookup_config ?two example_client 0]
  have c1: "Encode (assetGroupsQuery unnamed_config) = ''''"
    using none [THEN conjunct2, THEN conjunct1] by (simp add: unnamed)
  have c2: "Encode (assetGroupsQuery lookup_config) = ''%24filter=Name+eq+%27Web%27''"
    using two [THEN conjunct2, THEN conjunct1]
    by (simp add: named QueryEscape_def escape_byte_def shouldEscape_def upperhex_def quote_def)
  have c3: "''$filter'' \<in> set (map fst (assetGroupsQuery lookup_config))"
    using two [THEN conjunct1] by (simp add: named)
  have c4: "''$filter'' \<notin> set (map fst (assetGroupsQuery unnamed_config))"
    using none [THEN conjunct1] by (simp add: unnamed)
  note bad' = bad [THEN conjunct2, THEN conjunct2, THEN conjunct2, rule_format,
      OF conjI [OF r(1) example_do_first]]
  note none' = none [THEN conjunct2, THEN conjunct2, THEN conjunct2, rule_format,
      OF conjI [OF r(2) example_do_first]]
  note two' = two [THEN conjunct2, THEN conjunct2, THEN conjunct2, rule_format,
      OF conjI [OF r(3) example_do_first]]
  have c5: "dataSourceAssetGroupsRead ?bad lookup_config example_client 0 =
       ((Some (Errorf ''failed to read asset groups, status: 500 Internal Server Error''),
         lookup_config), 1)"
    using bad' by simp
  have c6: "\<exists>d'. dataSourceAssetGroupsRead ?none unnamed_config example_client 0 = ((None, d'), 1)
          \<and> rd_id d' = ''asset_groups''
          \<and> rd_lists d' ''asset_groups'' = Some []"
    using none' [THEN conjunct2, rule_format, of "''{Items:[]}''" "[]"]
    by (simp add: example_unmarshal_items_def) blast
  have c7: "\<exists>d' groups. dataSourceAssetGroupsRead ?two lookup_config example_client 0 = ((None, d'), 1)
          \<and> rd_id d' = ''asset_groups''
          \<and> rd_lists d' ''asset_groups'' = Some groups
          \<and> length groups = 2
          \<and> groups ! 0 = Some [(''id'', ''g1''), (''name'', ''Web''), (''description'', ''Web apps'')]
          \<and> groups ! 1 = Some [(''id'', ''g2''), (''name'', ''Web''), (''description'', '''')]"
    using two' [THEN conjunct2, rule_format, of "''{Items:[a,b]}''" "[item_a, item_b]"]
    by (auto simp add: example_unmarshal_items_def item_a_def item_b_def All_less_Suc
        numeral_2_eq_2)
  from c1 c2 c3 c4 c5 c6 c7 show ?thesis by - (intro conjI; assumption)
qed

section \<open>The provider's data sources\<close>

text \<open>
  Claim C9 says that the provider registers a business-unit lookup beside the two
  asset-group data sources. The code does not: \<open>Provider\<close> registers exactly
  \<open>appscan_asset_groups\<close> and \<open>appscan_asset_group\<close>, whose Read functions are the two
  asset-group reads. The resource \<open>dataSourceBusinessUnit\<close> exists, with
  \<open>dataSourceBusinessUnitRead\<close> as its Read, but it is no entry of the map, under any
  name.
\<close>

theorem provider_data_sources:
  "map fst (DataSourcesMap Provider) = [''appscan_asset_groups'', ''appscan_asset_group'']
   \<and> map (\<lambda>entry. Read (snd entry)) (DataSourcesMap Provider) =
       [Some Fn_dataSourceAssetGroupsRead, Some Fn_dataSourceAssetGroupRead]
   \<and> Read dataSourceBusinessUnit = Some Fn_dataSourceBusinessUnitRead
   \<and> map_of (DataSourcesMap Provider) ''appscan_business_unit'' = None
   \<and> dataSourceBusinessUnit \<notin> set (map snd (DataSourcesMap Provider))
   \<and> map fst (ResourcesMap Provider) = [''appscan_application'']"
  by (simp add: Provider_def dataSourceAssetGroups_def dataSourceAssetGroup_def
      dataSourceBusinessUnit_def)

end
